theory Spec2Isabelle
  imports Complex_Main "HOL-Library.Multiset"
begin

section \<open>Deep-CFR training core: regret matching, strategy update, evaluation\<close>

text \<open>
  A shallow embedding of \<^verbatim>\<open>client/Back/update_strategy_network.py\<close> and of
  \<^verbatim>\<open>client/Back/CFRTrainingEvaluator.py\<close>.

  Conventions used throughout.
  \<^item> numpy's and Python's floating point numbers are the exact reals: rounding, overflow
    and NaN are outside this model.
  \<^item> Every exception of the source is a value \<open>Inl e\<close> of a result type
    \<open>error + 'a\<close>; what a failing call had already mutated is not tracked.
  \<^item> Every random call takes its outcome as an argument (a sequence of raw draws), so
    a statement that holds for all draws holds for every run.
  \<^item> The estimators, \<^verbatim>\<open>encode_state\<close> and the reservoir buffer are not part of the
    two files; each is introduced below where it is first needed.
\<close>

subsection \<open>Errors and arrays\<close>

text \<open>
  \<open>ValueError\<close> and \<open>ZeroDivisionError\<close> are the Python exceptions the two files can
  raise through numpy, \<^verbatim>\<open>random\<close> and division. \<open>InsufficientDataError\<close> and
  \<open>EmptyStatePoolError\<close> are the names of the specification's error taxonomy;
  \<open>EstimatorError\<close> stands for whatever an estimator's \<^verbatim>\<open>fit\<close> raises.
\<close>

datatype error =
  ValueError | ZeroDivisionError | InsufficientDataError | EmptyStatePoolError | EstimatorError

text \<open>A numpy array of numbers: its shape and its elements in row-major order.\<close>

record ndarray =
  shape :: "nat list"
  data :: "real list"

definition np_size :: "ndarray \<Rightarrow> nat" where
  "np_size a = prod_list (shape a)"

text \<open>A one-dimensional array, such as a policy vector.\<close>

definition vector :: "real list \<Rightarrow> ndarray" where
  "vector v = \<lparr>shape = [length v], data = v\<rparr>"

text \<open>
  \<^verbatim>\<open>np.array([a0, a1, ...])\<close> on a list of arrays: the arrays are stacked along a new
  first axis. Arrays of different shapes make numpy (1.24 and later) raise ValueError.
\<close>

definition np_array :: "ndarray list \<Rightarrow> error + ndarray" where
  "np_array rows =
     (case rows of
        [] \<Rightarrow> Inr \<lparr>shape = [0], data = []\<rparr>
      | r # rs \<Rightarrow>
          if list_all (\<lambda>q. shape q = shape r) rs
          then Inr \<lparr>shape = length rows # shape r, data = concat (map data rows)\<rparr>
          else Inl ValueError)"

text \<open>
  \<^verbatim>\<open>a.reshape(-1, k)\<close>: the elements are kept, \<open>k\<close> to a row; numpy raises ValueError
  when \<open>k\<close> is 0 or does not divide the number of elements.
\<close>

definition reshape_rows :: "ndarray \<Rightarrow> nat \<Rightarrow> error + ndarray" where
  "reshape_rows a k =
     (if k = 0 \<or> \<not> k dvd np_size a then Inl ValueError
      else Inr \<lparr>shape = [np_size a div k, k], data = data a\<rparr>)"

text \<open>
  The guard both files apply to a batch of encoded states before it reaches an estimator
  (\<^verbatim>\<open>update_strategy_network.py\<close> lines 42-43, \<^verbatim>\<open>CFRTrainingEvaluator.py\<close> lines
  228-229):
  \<^verbatim>\<open>if len(states.shape) == 3: states = states.reshape(-1, self.input_size)\<close>
\<close>

definition reshape_guard :: "nat \<Rightarrow> ndarray \<Rightarrow> error + ndarray" where
  "reshape_guard input_size states =
     (if length (shape states) = 3 then reshape_rows states input_size else Inr states)"

subsection \<open>Random draws\<close>

text \<open>
  \<^verbatim>\<open>random.sample(population, k)\<close>: \<open>k\<close> elements at distinct positions. The draw
  \<open>rnd i\<close> picks the position of the next element among those not yet taken. Python
  raises ValueError when \<open>k\<close> is negative or larger than the population.
\<close>

fun draw_without_replacement :: "(nat \<Rightarrow> nat) \<Rightarrow> 'a list \<Rightarrow> nat \<Rightarrow> 'a list" where
  "draw_without_replacement rnd xs 0 = []"
| "draw_without_replacement rnd xs (Suc k) =
     (let j = rnd k mod length xs
      in xs ! j # draw_without_replacement rnd (take j xs @ drop (Suc j) xs) k)"

definition random_sample :: "(nat \<Rightarrow> nat) \<Rightarrow> 'a list \<Rightarrow> int \<Rightarrow> error + 'a list" where
  "random_sample rnd population k =
     (if k < 0 \<or> int (length population) < k then Inl ValueError
      else Inr (draw_without_replacement rnd population (nat k)))"

text \<open>
  \<^verbatim>\<open>np.random.choice(a, size)\<close> for an integer \<open>a\<close>: \<open>size\<close> independent indices below
  \<open>a\<close>; numpy raises ValueError when \<open>a\<close> is 0 and a sample is asked for.
\<close>

definition np_random_choice :: "(nat \<Rightarrow> nat) \<Rightarrow> nat \<Rightarrow> nat \<Rightarrow> error + nat list" where
  "np_random_choice rnd a size' =
     (if a = 0 \<and> 0 < size' then Inl ValueError
      else Inr (map (\<lambda>i. rnd i mod a) [0..<size']))"

text \<open>\<^verbatim>\<open>np.random.rand(rows, cols)\<close>: an array of draws from the unit interval.\<close>

definition np_random_rand :: "(nat \<Rightarrow> real) \<Rightarrow> nat \<Rightarrow> nat \<Rightarrow> ndarray" where
  "np_random_rand rnd rows cols = \<lparr>shape = [rows, cols], data = map rnd [0..<rows * cols]\<rparr>"

subsection \<open>Regret matching\<close>

text \<open>
  Lines 20-27 of \<^verbatim>\<open>update_strategy_network\<close>, the body of its inner loop up to the policy:
  \<^verbatim>\<open>
  epsilon = 1e-6
  min_adv = np.min(advantage_vector)
  shifted_advantages = advantage_vector - min_adv + epsilon
  sum_positive = np.sum(shifted_advantages)
  if sum_positive > 0:
      policy = shifted_advantages / sum_positive
  else:
      policy = np.ones_like(advantage_vector) / len(advantage_vector)
  \<close>
  \<^verbatim>\<open>np.min\<close> of an empty array raises ValueError.
\<close>

definition epsilon :: real where
  "epsilon = 1 / 1000000"

fun np_min :: "real list \<Rightarrow> error + real" where
  "np_min [] = Inl ValueError"
| "np_min (a # as) = Inr (fold min as a)"

definition regret_match :: "real list \<Rightarrow> error + real list" where
  "regret_match advantage_vector =
     (case np_min advantage_vector of
        Inl e \<Rightarrow> Inl e
      | Inr min_adv \<Rightarrow>
          (let shifted_advantages = map (\<lambda>a. a - min_adv + epsilon) advantage_vector;
               sum_positive = sum_list shifted_advantages
           in if sum_positive > 0
              then Inr (map (\<lambda>s. s / sum_positive) shifted_advantages)
              else Inr (map (\<lambda>_. 1 / real (length advantage_vector)) advantage_vector)))"

subsection \<open>Reservoir buffer\<close>

text \<open>
  Modelled from the spec: the class \<^verbatim>\<open>ReservoirBuffer\<close> (module
  \<^verbatim>\<open>reservoirbuffer\<close>, imported by \<^verbatim>\<open>CFRTrainingEvaluator.py\<close>) is not among the
  source files. Section 4.1 of the specification gives its contract:
  \<^item> \<^verbatim>\<open>add(item)\<close> increments the seen-count; below capacity it appends; at capacity
    it draws an index in \<open>[0, seen_count)\<close> and overwrites the entry at that index when
    the index is below the capacity, and discards the item otherwise;
  \<^item> \<^verbatim>\<open>sample(batch_size)\<close> returns \<open>batch_size\<close> items drawn without replacement and
    fails with \<open>InsufficientDataError\<close> when the buffer holds fewer.
  The field \<open>buffer\<close> is the attribute \<^verbatim>\<open>reservoir_buffer.buffer\<close> that
  \<^verbatim>\<open>update_strategy_network\<close> reads.
\<close>

record 'a reservoir_buffer =
  capacity :: nat
  buffer :: "'a list"
  seen_count :: nat

text \<open>
  Modelled from the spec: \<^verbatim>\<open>ReservoirBuffer.add\<close>, absent from the source files. The
  draw \<open>rnd seen\<close> gives the index in \<open>[0, seen_count)\<close> of the offer that brings the
  seen-count to \<open>seen\<close>.
\<close>

definition add :: "(nat \<Rightarrow> nat) \<Rightarrow> 'a \<Rightarrow> 'a reservoir_buffer \<Rightarrow> 'a reservoir_buffer" where
  "add rnd item rb =
     (let seen = seen_count rb + 1
      in if length (buffer rb) < capacity rb
         then rb\<lparr>buffer := buffer rb @ [item], seen_count := seen\<rparr>
         else (let idx = rnd seen mod seen
               in if idx < capacity rb
                  then rb\<lparr>buffer := (buffer rb)[idx := item], seen_count := seen\<rparr>
                  else rb\<lparr>seen_count := seen\<rparr>))"

text \<open>
  Modelled from the spec: \<^verbatim>\<open>ReservoirBuffer.sample\<close>, absent from the source files.
\<close>

definition sample :: "(nat \<Rightarrow> nat) \<Rightarrow> 'a reservoir_buffer \<Rightarrow> nat \<Rightarrow> error + 'a list" where
  "sample rnd rb batch_size =
     (if length (buffer rb) < batch_size then Inl InsufficientDataError
      else Inr (draw_without_replacement rnd (buffer rb) batch_size))"

subsection \<open>Estimators\<close>

text \<open>
  The advantage and the strategy network are external trainable objects. An estimator
  is modelled by the calls of \<^verbatim>\<open>fit\<close> it has received: inputs, targets and epochs.
  What a call returns (its first loss) or raises is an argument of the model: it may
  depend on the calls received so far and on the call itself.
\<close>

type_synonym fit_call = "ndarray \<times> ndarray \<times> nat"

record estimator =
  fit_calls :: "fit_call list"

type_synonym fit_outcome = "fit_call list \<Rightarrow> fit_call \<Rightarrow> error + real"

definition model_fit ::
  "fit_outcome \<Rightarrow> estimator \<Rightarrow> ndarray \<Rightarrow> ndarray \<Rightarrow> nat \<Rightarrow> error + (real \<times> estimator)" where
  "model_fit outcome net inputs targets epochs =
     (case outcome (fit_calls net) (inputs, targets, epochs) of
        Inl e \<Rightarrow> Inl e
      | Inr loss \<Rightarrow> Inr (loss, net\<lparr>fit_calls := fit_calls net @ [(inputs, targets, epochs)]\<rparr>))"

subsection \<open>\<^verbatim>\<open>update_strategy_network\<close>\<close>

text \<open>
  An observation is a pair of an encoded state and an advantage vector; the strategy
  buffer holds pairs of an encoded state and a policy.
\<close>

type_synonym observation = "ndarray \<times> real list"
type_synonym policy_buffer = "(ndarray \<times> real list) reservoir_buffer"

text \<open>
  Lines 17-31, the inner loop over the observations of one information set: regret
  matching, then \<^verbatim>\<open>reservoir_buffer.add((encoded_state, policy))\<close>. The three
  \<^verbatim>\<open>logging.info\<close> lines have no effect on the result.
\<close>

fun add_policy_targets ::
  "(nat \<Rightarrow> nat) \<Rightarrow> observation list \<Rightarrow> policy_buffer \<Rightarrow> error + policy_buffer" where
  "add_policy_targets rnd [] rb = Inr rb"
| "add_policy_targets rnd ((encoded_state, advantage_vector) # rest) rb =
     (case regret_match advantage_vector of
        Inl e \<Rightarrow> Inl e
      | Inr policy \<Rightarrow> add_policy_targets rnd rest (add rnd (encoded_state, policy) rb))"

text \<open>
  Line 16, the outer loop \<^verbatim>\<open>for info_set, advantage_data in advantages.items()\<close>:
  the dictionary is the list of its items in iteration order.
\<close>

fun add_all_info_sets ::
  "(nat \<Rightarrow> nat) \<Rightarrow> ('k \<times> observation list) list \<Rightarrow> policy_buffer \<Rightarrow> error + policy_buffer" where
  "add_all_info_sets rnd [] rb = Inr rb"
| "add_all_info_sets rnd ((info_set, advantage_data) # rest) rb =
     (case add_policy_targets rnd advantage_data rb of
        Inl e \<Rightarrow> Inl e
      | Inr rb' \<Rightarrow> add_all_info_sets rnd rest rb')"

text \<open>
  Lines 38-51: the sampled entries become two arrays, the states pass the reshape guard,
  and the strategy network is fitted. The result is the strategy network after the call.
\<close>

definition fit_sampled_batch ::
  "nat \<Rightarrow> fit_outcome \<Rightarrow> estimator \<Rightarrow> (ndarray \<times> real list) list \<Rightarrow> nat \<Rightarrow> error + estimator" where
  "fit_sampled_batch input_size outcome strategy_net samples epochs =
     (case np_array (map fst samples) of
        Inl e \<Rightarrow> Inl e
      | Inr states \<Rightarrow>
          (case np_array (map (\<lambda>s. vector (snd s)) samples) of
             Inl e \<Rightarrow> Inl e
           | Inr policy_targets \<Rightarrow>
               (case reshape_guard input_size states of
                  Inl e \<Rightarrow> Inl e
                | Inr states' \<Rightarrow>
                    (case model_fit outcome strategy_net states' policy_targets epochs of
                       Inl e \<Rightarrow> Inl e
                     | Inr (loss, strategy_net') \<Rightarrow> Inr strategy_net'))))"

text \<open>
  The whole function. Its arguments \<^verbatim>\<open>self.input_size\<close>, the behaviour of
  \<^verbatim>\<open>strategy_net.model.fit\<close> and the draws of \<^verbatim>\<open>add\<close> and \<^verbatim>\<open>sample\<close> come first;
  \<^verbatim>\<open>advantage_net\<close> is never used by the source and is left out. The source returns
  nothing: the result is what it has mutated, the strategy network and the buffer.
\<close>

definition update_strategy_network ::
  "nat \<Rightarrow> fit_outcome \<Rightarrow> (nat \<Rightarrow> nat) \<Rightarrow> (nat \<Rightarrow> nat) \<Rightarrow> estimator \<Rightarrow> policy_buffer \<Rightarrow>
   ('k \<times> observation list) list \<Rightarrow> nat \<Rightarrow> nat \<Rightarrow> error + (estimator \<times> policy_buffer)" where
  "update_strategy_network input_size outcome add_rnd sample_rnd strategy_net reservoir_buffer
       advantages batch_size epochs =
     (case add_all_info_sets add_rnd advantages reservoir_buffer of
        Inl e \<Rightarrow> Inl e
      | Inr rb \<Rightarrow>
          if length (buffer rb) < batch_size then Inr (strategy_net, rb)
          else (case sample sample_rnd rb batch_size of
                  Inl e \<Rightarrow> Inl e
                | Inr samples \<Rightarrow>
                    (case fit_sampled_batch input_size outcome strategy_net samples epochs of
                       Inl e \<Rightarrow> Inl e
                     | Inr strategy_net' \<Rightarrow> Inr (strategy_net', rb))))"

subsection \<open>\<^verbatim>\<open>CFRTrainingEvaluator\<close>\<close>

text \<open>
  A game state, as far as \<^verbatim>\<open>evaluate_declaration_accuracy\<close> reads it:
  \<^verbatim>\<open>state['selectaction']\<close> and \<^verbatim>\<open>state['sum']\<close> (named \<open>sum'\<close> here).
\<close>

record game_state =
  selectaction :: real
  sum' :: real

text \<open>The evaluator's \<^verbatim>\<open>self.history\<close>.\<close>

record history =
  advantage_loss :: "real list"
  strategy_accuracy :: "real list"
  declaration_vs_sum_ratio :: "real list"
  win_rate :: "real list"
  epoch :: "nat list"

definition empty_history :: history where
  "empty_history = \<lparr>advantage_loss = [], strategy_accuracy = [],
     declaration_vs_sum_ratio = [], win_rate = [], epoch = []\<rparr>"

definition append_if_given :: "real option \<Rightarrow> real list \<Rightarrow> real list" where
  "append_if_given v xs = (case v of None \<Rightarrow> xs | Some x \<Rightarrow> xs @ [x])"

definition log_metrics ::
  "nat \<Rightarrow> real option \<Rightarrow> real option \<Rightarrow> real option \<Rightarrow> real option \<Rightarrow> history \<Rightarrow> history" where
  "log_metrics ep adv_loss strat_acc decl_ratio wins h =
     \<lparr>advantage_loss = append_if_given adv_loss (advantage_loss h),
      strategy_accuracy = append_if_given strat_acc (strategy_accuracy h),
      declaration_vs_sum_ratio = append_if_given decl_ratio (declaration_vs_sum_ratio h),
      win_rate = append_if_given wins (win_rate h),
      epoch = epoch h @ [ep]\<rparr>"

text \<open>
  Lines 57-81 of \<^verbatim>\<open>evaluate_declaration_accuracy\<close>, the loop over the sampled states
  with its three accumulators \<open>(correct_declarations, total_ratio, overestimation_count)\<close>.
  The encoded state is computed and not used.
\<close>

fun declaration_loop ::
  "(game_state \<Rightarrow> ndarray) \<Rightarrow> game_state list \<Rightarrow> nat \<times> real \<times> nat \<Rightarrow> nat \<times> real \<times> nat" where
  "declaration_loop encode_state [] acc = acc"
| "declaration_loop encode_state (state # rest)
       (correct_declarations, total_ratio, overestimation_count) =
     (let encoded_state = encode_state state;
          declaration = selectaction state;
          actual_sum = sum' state
      in if actual_sum > 0
         then (let ratio = declaration / actual_sum
               in declaration_loop encode_state rest
                    (if 8 / 10 \<le> ratio \<and> ratio \<le> 12 / 10
                     then correct_declarations + 1 else correct_declarations,
                     total_ratio + ratio,
                     if declaration > actual_sum
                     then overestimation_count + 1 else overestimation_count))
         else declaration_loop encode_state rest
                (correct_declarations, total_ratio, overestimation_count))"

text \<open>
  The whole function (lines 47-87). The result is
  \<open>(avg_ratio, accuracy, overestimation_rate)\<close>.
\<close>

definition evaluate_declaration_accuracy ::
  "(game_state \<Rightarrow> ndarray) \<Rightarrow> (nat \<Rightarrow> nat) \<Rightarrow> game_state list \<Rightarrow> int \<Rightarrow>
   error + (real \<times> real \<times> real)" where
  "evaluate_declaration_accuracy encode_state rnd test_states num_samples =
     (let sample_size = min num_samples (int (length test_states))
      in case random_sample rnd test_states sample_size of
           Inl e \<Rightarrow> Inl e
         | Inr sampled_states \<Rightarrow>
             (case declaration_loop encode_state sampled_states (0, 0, 0) of
                (correct_declarations, total_ratio, overestimation_count) \<Rightarrow>
                  Inr (if sample_size > 0 then total_ratio / real_of_int sample_size else 0,
                       if sample_size > 0
                       then real correct_declarations / real_of_int sample_size else 0,
                       if sample_size > 0
                       then real overestimation_count / real_of_int sample_size else 0)))"

text \<open>
  \<^verbatim>\<open>evaluate_win_rate\<close> (lines 89-110): \<open>results g\<close> is the draw of game \<open>g\<close>. The
  threshold depends only on the history, so it is computed once.
\<close>

definition evaluate_win_rate :: "(nat \<Rightarrow> real) \<Rightarrow> history \<Rightarrow> nat \<Rightarrow> string \<Rightarrow> error + real" where
  "evaluate_win_rate results h num_games opponent =
     (let win_threshold =
            (if opponent = ''random''
             then min (5 / 10 + real (length (epoch h)) * (1 / 100)) (9 / 10)
             else 5 / 10);
          wins = length (filter (\<lambda>g. results g < win_threshold) [0..<num_games])
      in if num_games = 0 then Inl ZeroDivisionError
         else Inr (real wins / real num_games))"

subsection \<open>\<^verbatim>\<open>evaluate_cfr_training\<close>\<close>

text \<open>The outcomes of the random calls of one iteration of the training loop.\<close>

record iteration_draws =
  batch_draw :: "nat \<Rightarrow> nat"
  target_draw :: "nat \<Rightarrow> real"
  accuracy_draw :: real
  sample_draw :: "nat \<Rightarrow> nat"
  game_draw :: "nat \<Rightarrow> real"

text \<open>
  Lines 219-255, the body of the loop, on the advantage network and the evaluator's
  history. \<^verbatim>\<open>encode_state\<close> is the external encoder.
\<close>

definition training_iteration ::
  "nat \<Rightarrow> (game_state \<Rightarrow> ndarray) \<Rightarrow> fit_outcome \<Rightarrow> iteration_draws \<Rightarrow> game_state list \<Rightarrow> nat \<Rightarrow>
   estimator \<times> history \<Rightarrow> error + (estimator \<times> history)" where
  "training_iteration input_size encode_state outcome draws current_state i st =
     (case st of (advantage_net, h) \<Rightarrow>
        (let batch_size = 32; output_size = 141
         in (case np_random_choice (batch_draw draws) (length current_state) batch_size of
               Inl e \<Rightarrow> Inl e
             | Inr batch_indices \<Rightarrow>
        (let batch_states = map (\<lambda>idx. current_state ! idx) batch_indices
         in (case np_array (map encode_state batch_states) of
               Inl e \<Rightarrow> Inl e
             | Inr encoded_states \<Rightarrow>
            (case reshape_guard input_size encoded_states of
               Inl e \<Rightarrow> Inl e
             | Inr encoded_states' \<Rightarrow>
            (case model_fit outcome advantage_net encoded_states'
                    (np_random_rand (target_draw draws) batch_size output_size) 1 of
               Inl e \<Rightarrow> Inl e
             | Inr (adv_loss, advantage_net') \<Rightarrow>
        (let strat_acc = accuracy_draw draws * (2 / 10) + 6 / 10
         in (case evaluate_declaration_accuracy encode_state (sample_draw draws)
                    current_state 100 of
               Inl e \<Rightarrow> Inl e
             | Inr (declaration_ratio, accuracy, overestimation_rate) \<Rightarrow>
            (case evaluate_win_rate (game_draw draws) h 50 ''random'' of
               Inl e \<Rightarrow> Inl e
             | Inr wins \<Rightarrow>
                 Inr (advantage_net',
                      log_metrics i (Some adv_loss) (Some strat_acc) (Some declaration_ratio)
                        (Some wins) h)))))))))))"

text \<open>
  Line 218, \<^verbatim>\<open>for i in tqdm(range(iterations))\<close>: the first exception ends the loop
  and the function.
\<close>

fun training_loop ::
  "nat \<Rightarrow> (game_state \<Rightarrow> ndarray) \<Rightarrow> fit_outcome \<Rightarrow> (nat \<Rightarrow> iteration_draws) \<Rightarrow> game_state list \<Rightarrow>
   nat list \<Rightarrow> estimator \<times> history \<Rightarrow> error + (estimator \<times> history)" where
  "training_loop input_size encode_state outcome draws current_state [] st = Inr st"
| "training_loop input_size encode_state outcome draws current_state (i # rest) st =
     (case training_iteration input_size encode_state outcome (draws i) current_state i st of
        Inl e \<Rightarrow> Inl e
      | Inr st' \<Rightarrow> training_loop input_size encode_state outcome draws current_state rest st')"

text \<open>
  \<^verbatim>\<open>evaluate_cfr_training\<close> up to the end of its loop (lines 198-255), starting from a
  fresh evaluator. The charts drawn and saved afterwards (lines 257-268) are presentation
  and are not modelled.
\<close>

definition evaluate_cfr_training ::
  "nat \<Rightarrow> (game_state \<Rightarrow> ndarray) \<Rightarrow> fit_outcome \<Rightarrow> (nat \<Rightarrow> iteration_draws) \<Rightarrow> estimator \<Rightarrow>
   game_state list \<Rightarrow> nat \<Rightarrow> error + (estimator \<times> history)" where
  "evaluate_cfr_training input_size encode_state outcome draws advantage_net current_state
       iterations =
     training_loop input_size encode_state outcome draws current_state [0..<iterations]
       (advantage_net, empty_history)"

subsection \<open>The declaration metrics as the specification words them\<close>

text \<open>
  Section 4.4 of the specification: (a) the mean ratio \<open>declared / actual\<close> over the
  states with \<open>actual > 0\<close>, (b) the fraction of states where the ratio lies in
  \<open>[0.8, 1.2]\<close>, (c) the fraction of states where \<open>declared > actual\<close>. These three
  definitions follow those words, for comparison with the code.
\<close>

definition ratio :: "game_state \<Rightarrow> real" where
  "ratio s = selectaction s / sum' s"

definition spec_mean_ratio :: "game_state list \<Rightarrow> real" where
  "spec_mean_ratio states =
     (let positive = filter (\<lambda>s. 0 < sum' s) states
      in sum_list (map ratio positive) / real (length positive))"

definition spec_accuracy :: "game_state list \<Rightarrow> real" where
  "spec_accuracy states =
     real (length (filter (\<lambda>s. 8 / 10 \<le> ratio s \<and> ratio s \<le> 12 / 10) states))
       / real (length states)"

definition spec_overestimation_rate :: "game_state list \<Rightarrow> real" where
  "spec_overestimation_rate states =
     real (length (filter (\<lambda>s. sum' s < selectaction s) states)) / real (length states)"

subsection \<open>Well-formed batches\<close>

text \<open>
  The data model fixes one shape for every encoded state and one width for every
  advantage and policy vector. \<open>uniform_entries sh n\<close> says so of a list of pairs of
  an encoded state and a vector: every state has shape \<open>sh\<close>, every vector width \<open>n\<close>.
\<close>

definition uniform_entries :: "nat list \<Rightarrow> nat \<Rightarrow> (ndarray \<times> real list) list \<Rightarrow> bool" where
  "uniform_entries sh n entries =
     list_all (\<lambda>entry. shape (fst entry) = sh \<and> length (snd entry) = n) entries"

subsection \<open>Concrete collaborators for the examples\<close>

text \<open>
  Draws that always pick the first position, an encoder that lists the two fields of a
  state as a row of width 2, and an estimator whose \<^verbatim>\<open>fit\<close> always succeeds with loss 0.
\<close>

definition first_position :: "nat \<Rightarrow> nat" where
  "first_position i = 0"

definition row_encoder :: "game_state \<Rightarrow> ndarray" where
  "row_encoder s = \<lparr>shape = [1, 2], data = [selectaction s, sum' s]\<rparr>"

definition fit_succeeds :: fit_outcome where
  "fit_succeeds calls call = Inr 0"

definition half_draws :: "nat \<Rightarrow> iteration_draws" where
  "half_draws i = \<lparr>batch_draw = first_position, target_draw = (\<lambda>k. 1 / 2),
     accuracy_draw = 1 / 2, sample_draw = first_position, game_draw = (\<lambda>g. 1 / 2)\<rparr>"

subsection \<open>Helper lemmas on regret matching\<close>

lemma epsilon_pos: "0 < epsilon"
  by (simp add: epsilon_def)

lemma np_min_Min: "np_min v = Inr (Min (set v))" if "v \<noteq> []"
proof (cases v)
  case Nil
  with that show ?thesis by simp
next
  case (Cons a as)
  then show ?thesis using Min.set_eq_fold[of a as] by simp
qed

lemma np_min_le: "np_min v = Inr m \<Longrightarrow> a \<in> set v \<Longrightarrow> m \<le> a"
  by (cases "v = []") (auto simp: np_min_Min)

lemma np_min_translate:
  "np_min (map (\<lambda>a. a + c) v) = map_sum id (\<lambda>m. m + c) (np_min v)"
proof (cases "v = []")
  case True
  then show ?thesis by simp
next
  case False
  have "Min ((\<lambda>a. a + c) ` set v) = Min (set v) + c"
    using False Min_add_commute[of "set v" "\<lambda>a. a" c] by simp
  with False show ?thesis by (simp add: np_min_Min)
qed

lemma sum_list_pos_real:
  "xs \<noteq> [] \<Longrightarrow> (\<And>x. x \<in> set xs \<Longrightarrow> 0 < x) \<Longrightarrow> 0 < sum_list (xs :: real list)"
proof (induction xs)
  case Nil
  then show ?case by simp
next
  case (Cons x xs)
  show ?case
  proof (cases "xs = []")
    case True
    with Cons.prems show ?thesis by simp
  next
    case False
    then have "0 < sum_list xs" using Cons by simp
    moreover have "0 < x" using Cons.prems by simp
    ultimately show ?thesis by simp
  qed
qed

lemma sum_list_divide: "sum_list (map (\<lambda>s. s / t) xs) = sum_list xs / (t::real)"
  by (induction xs) (simp_all add: add_divide_distrib)

lemma shifted_sum_pos:
  assumes "np_min v = Inr m"
  shows "0 < sum_list (map (\<lambda>a. a - m + epsilon) v)"
proof -
  have ne: "v \<noteq> []" using assms by (cases v) simp_all
  have "\<And>x. x \<in> set (map (\<lambda>a. a - m + epsilon) v) \<Longrightarrow> 0 < x"
    using np_min_le[OF assms] epsilon_pos by fastforce
  with ne show ?thesis by (intro sum_list_pos_real) simp_all
qed

lemma regret_match_normalized:
  assumes "np_min v = Inr m"
  shows "regret_match v =
    Inr (map (\<lambda>s. s / sum_list (map (\<lambda>a. a - m + epsilon) v)) (map (\<lambda>a. a - m + epsilon) v))"
  using shifted_sum_pos[OF assms] assms by (simp add: regret_match_def Let_def)

subsection \<open>Properties of regret matching\<close>

text \<open>
  C9: for every non-empty advantage vector the sum of the shifted advantages
  (each entry minus the minimum plus epsilon) is strictly positive, so the policy is the
  normalized one: the uniform fallback is never taken and the division is by a positive
  number.
\<close>

theorem shifted_sum_positive:
  assumes "advantage_vector \<noteq> []"
  shows "\<exists>min_adv. np_min advantage_vector = Inr min_adv
           \<and> 0 < sum_list (map (\<lambda>a. a - min_adv + epsilon) advantage_vector)
           \<and> regret_match advantage_vector =
               Inr (map (\<lambda>s. s / sum_list (map (\<lambda>a. a - min_adv + epsilon) advantage_vector))
                        (map (\<lambda>a. a - min_adv + epsilon) advantage_vector))"
proof -
  obtain m where m: "np_min advantage_vector = Inr m"
    using assms by (cases advantage_vector) simp_all
  from shifted_sum_pos[OF m] regret_match_normalized[OF m] m show ?thesis by blast
qed

theorem shifted_sum_positive_witness:
  "[-3, -1, -5] \<noteq> ([] :: real list)
   \<and> np_min [-3, -1, -5] = Inr (-5)
   \<and> 0 < sum_list (map (\<lambda>a. a - (-5) + epsilon) [-3, -1, -5])
   \<and> regret_match [-3, -1, -5] = Inr [1 / 3, 4000001 / 6000003, 1 / 6000003]"
proof -
  have ne: "[-3, -1, -5] \<noteq> ([] :: real list)" by simp
  from shifted_sum_positive[OF ne] obtain m where
    m: "np_min [-3, -1, -5] = Inr m"
    and pos: "0 < sum_list (map (\<lambda>a. a - m + epsilon) [-3, -1, -5])"
    and rm: "regret_match [-3, -1, -5] =
      Inr (map (\<lambda>s. s / sum_list (map (\<lambda>a. a - m + epsilon) [-3, -1, -5]))
               (map (\<lambda>a. a - m + epsilon) [-3, -1, -5]))"
    by blast
  have m5: "m = -5" using m by simp
  show ?thesis using m pos rm unfolding m5 by (simp add: epsilon_def)
qed

text \<open>
  Under exact arithmetic, regret matching of a non-empty advantage vector gives a policy
  of the same length whose entries are all non-negative and sum to 1. This is a fact of
  the exact model only: the code computes in the floating-point type of the array, where
  a difference that overflows gives a NaN entry and a sum of rounded entries need not be
  1 within a given tolerance.
\<close>

theorem regret_match_simplex:
  assumes "advantage_vector \<noteq> []"
  shows "\<exists>policy. regret_match advantage_vector = Inr policy
           \<and> length policy = length advantage_vector
           \<and> (\<forall>p \<in> set policy. 0 \<le> p)
           \<and> sum_list policy = 1
           \<and> \<bar>sum_list policy - 1\<bar> \<le> 1 / 10 ^ 9"
proof -
  obtain m where m: "np_min advantage_vector = Inr m"
    using assms by (cases advantage_vector) simp_all
  let ?sh = "map (\<lambda>a. a - m + epsilon) advantage_vector"
  let ?t = "sum_list ?sh"
  let ?p = "map (\<lambda>s. s / ?t) ?sh"
  have t: "0 < ?t" by (rule shifted_sum_pos[OF m])
  have rm: "regret_match advantage_vector = Inr ?p"
    by (rule regret_match_normalized[OF m])
  have nonneg: "\<forall>p \<in> set ?p. 0 \<le> p"
  proof
    fix p assume "p \<in> set ?p"
    then obtain a where a: "a \<in> set advantage_vector" and p: "p = (a - m + epsilon) / ?t"
      by auto
    have "0 \<le> a - m + epsilon" using np_min_le[OF m a] epsilon_pos by simp
    with t show "0 \<le> p" unfolding p by simp
  qed
  have one: "sum_list ?p = 1"
    using t sum_list_divide[of ?t ?sh] by simp
  show ?thesis
    using rm nonneg one by (intro exI[of _ ?p]) simp
qed

theorem regret_match_simplex_witness:
  "[2, -7, 2, 0] \<noteq> ([] :: real list)
   \<and> regret_match [2, -7, 2, 0] =
       Inr [9000001 / 25000004, 1 / 25000004, 9000001 / 25000004, 7000001 / 25000004]
   \<and> list_all (\<lambda>p. 0 \<le> p)
       [9000001 / 25000004, 1 / 25000004, 9000001 / 25000004, 7000001 / 25000004 :: real]
   \<and> sum_list [9000001 / 25000004, 1 / 25000004, 9000001 / 25000004, 7000001 / 25000004 :: real] = 1"
proof -
  have ne: "[2, -7, 2, 0] \<noteq> ([] :: real list)" by simp
  from regret_match_simplex[OF ne] obtain policy where
    rm: "regret_match [2, -7, 2, 0] = Inr policy"
    and nonneg: "\<forall>p \<in> set policy. 0 \<le> p"
    and one: "sum_list policy = 1"
    by blast
  have "regret_match [2, -7, 2, 0] =
      Inr [9000001 / 25000004, 1 / 25000004, 9000001 / 25000004, 7000001 / 25000004]"
    by (simp add: regret_match_def epsilon_def)
  with rm have p: "policy = [9000001 / 25000004, 1 / 25000004, 9000001 / 25000004, 7000001 / 25000004]"
    by simp
  show ?thesis using rm nonneg one unfolding p by simp
qed

text \<open>
  Under exact arithmetic, regret matching is strictly order-preserving: whenever entry i
  of the advantage vector is strictly greater than entry j, entry i of the policy is
  strictly greater than entry j. This too is a fact of the exact model only: in floating
  point two entries that differ by less than the rounding of the shift become equal.
\<close>

theorem regret_match_order_preserving:
  assumes "i < length advantage_vector" and "j < length advantage_vector"
    and "advantage_vector ! j < advantage_vector ! i"
  shows "\<exists>policy. regret_match advantage_vector = Inr policy \<and> policy ! j < policy ! i"
proof -
  have ne: "advantage_vector \<noteq> []" using assms(1) by auto
  obtain m where m: "np_min advantage_vector = Inr m"
    using ne by (cases advantage_vector) simp_all
  let ?sh = "map (\<lambda>a. a - m + epsilon) advantage_vector"
  let ?t = "sum_list ?sh"
  have t: "0 < ?t" by (rule shifted_sum_pos[OF m])
  have "(advantage_vector ! j - m + epsilon) / ?t < (advantage_vector ! i - m + epsilon) / ?t"
    using assms(3) t by (simp add: divide_strict_right_mono)
  then show ?thesis
    using regret_match_normalized[OF m] assms(1,2) by simp
qed

theorem regret_match_order_preserving_witness:
  "regret_match [-3, -1, -5] = Inr [1 / 3, 4000001 / 6000003, 1 / 6000003]
   \<and> [1 / 3, 4000001 / 6000003, 1 / 6000003 :: real] ! 0 < [1 / 3, 4000001 / 6000003, 1 / 6000003] ! 1
   \<and> [1 / 3, 4000001 / 6000003, 1 / 6000003 :: real] ! 2 < [1 / 3, 4000001 / 6000003, 1 / 6000003] ! 0"
proof -
  let ?v = "[-3, -1, -5] :: real list"
  have v: "regret_match ?v = Inr [1 / 3, 4000001 / 6000003, 1 / 6000003]"
    by (simp add: regret_match_def epsilon_def)
  have "\<exists>policy. regret_match ?v = Inr policy \<and> policy ! 0 < policy ! 1"
    by (rule regret_match_order_preserving[of 1 ?v 0]) simp_all
  moreover have "\<exists>policy. regret_match ?v = Inr policy \<and> policy ! 2 < policy ! 0"
    by (rule regret_match_order_preserving[of 0 ?v 2]) simp_all
  ultimately show ?thesis unfolding v by simp
qed

text \<open>
  C8: on an advantage vector whose entries are all equal (n copies of c, n > 0), regret
  matching yields the exact uniform distribution: n copies of 1/n.
\<close>

theorem regret_match_all_equal:
  assumes "0 < n"
  shows "regret_match (replicate n c) = Inr (replicate n (1 / real n))"
proof -
  have m: "np_min (replicate n c) = Inr c"
    using assms np_min_Min[of "replicate n c"] by simp
  have sh: "map (\<lambda>a. a - c + epsilon) (replicate n c) = replicate n epsilon"
    by simp
  have t: "sum_list (replicate n epsilon) = real n * epsilon"
    by (simp add: sum_list_replicate)
  have "epsilon / (real n * epsilon) = 1 / real n"
    using epsilon_pos by simp
  then show ?thesis
    using regret_match_normalized[OF m] by (simp add: sh t)
qed

theorem regret_match_all_equal_witness:
  "(0::nat) < 3 \<and> regret_match [5, 5, 5] = Inr [1 / 3, 1 / 3, 1 / 3]"
  using regret_match_all_equal[of 3 5] by (simp add: numeral_3_eq_3)

text \<open>
  C10: regret matching is translation-invariant: adding the same scalar c to every entry
  of the advantage vector leaves the result unchanged.
\<close>

theorem regret_match_translation_invariant:
  "regret_match (map (\<lambda>a. a + c) advantage_vector) = regret_match advantage_vector"
proof (cases "np_min advantage_vector")
  case (Inl e)
  then show ?thesis
    by (simp add: regret_match_def np_min_translate)
next
  case (Inr m)
  then have m': "np_min (map (\<lambda>a. a + c) advantage_vector) = Inr (m + c)"
    by (simp add: np_min_translate)
  have sh: "map (\<lambda>a. a - (m + c) + epsilon) (map (\<lambda>a. a + c) advantage_vector)
      = map (\<lambda>a. a - m + epsilon) advantage_vector"
    by simp
  show ?thesis
    unfolding regret_match_normalized[OF Inr] regret_match_normalized[OF m'] sh ..
qed

theorem regret_match_translation_invariant_witness:
  "regret_match [7, 9, 5] = regret_match [-3, -1, -5]
   \<and> regret_match [7, 9, 5] = Inr [1 / 3, 4000001 / 6000003, 1 / 6000003]"
proof -
  have "regret_match (map (\<lambda>a. a + 10) [-3, -1, -5]) = regret_match [-3, -1, -5]"
    by (rule regret_match_translation_invariant)
  moreover have "regret_match [7, 9, 5] = Inr [1 / 3, 4000001 / 6000003, 1 / 6000003]"
    by (simp add: regret_match_def epsilon_def)
  ultimately show ?thesis by simp
qed

subsection \<open>Helper lemmas on sampling and on the declaration loop\<close>

lemma length_draw_without_replacement [simp]:
  "length (draw_without_replacement rnd xs k) = k"
  by (induction k arbitrary: xs) (simp_all add: Let_def)

lemma mset_remove_nth:
  assumes "j < length xs"
  shows "mset xs = add_mset (xs ! j) (mset (take j xs @ drop (Suc j) xs))"
proof -
  have "mset xs = mset (take j xs @ xs ! j # drop (Suc j) xs)"
    using id_take_nth_drop[OF assms] by simp
  then show ?thesis by simp
qed

lemma mset_draw_without_replacement:
  "k \<le> length xs \<Longrightarrow> mset (draw_without_replacement rnd xs k) \<subseteq># mset xs"
proof (induction k arbitrary: xs)
  case 0
  then show ?case by simp
next
  case (Suc k)
  let ?j = "rnd k mod length xs"
  let ?rest = "take ?j xs @ drop (Suc ?j) xs"
  have "0 < length xs" using Suc.prems by linarith
  then have j: "?j < length xs" by (rule mod_less_divisor)
  have "k \<le> length ?rest" using Suc.prems j by simp
  then have "mset (draw_without_replacement rnd ?rest k) \<subseteq># mset ?rest"
    by (rule Suc.IH)
  then have "add_mset (xs ! ?j) (mset (draw_without_replacement rnd ?rest k))
      \<subseteq># add_mset (xs ! ?j) (mset ?rest)"
    by simp
  then show ?case
    using mset_remove_nth[OF j] by (simp add: Let_def)
qed

lemma random_sample_Inr:
  assumes "random_sample rnd population k = Inr sampled"
  shows "int (length sampled) = k" and "mset sampled \<subseteq># mset population"
proof -
  have k: "0 \<le> k" "k \<le> int (length population)"
    and s: "sampled = draw_without_replacement rnd population (nat k)"
    using assms by (auto simp: random_sample_def split: if_splits)
  show "int (length sampled) = k" using k s by simp
  have "nat k \<le> length population" using k by simp
  then show "mset sampled \<subseteq># mset population"
    unfolding s by (rule mset_draw_without_replacement)
qed

lemma declaration_loop_closed_form:
  "declaration_loop encode_state states (c, t, ov) =
     (c + length (filter (\<lambda>s. 0 < sum' s \<and> 8 / 10 \<le> ratio s \<and> ratio s \<le> 12 / 10) states),
      t + sum_list (map ratio (filter (\<lambda>s. 0 < sum' s) states)),
      ov + length (filter (\<lambda>s. 0 < sum' s \<and> sum' s < selectaction s) states))"
  by (induction states arbitrary: c t ov) (simp_all add: Let_def ratio_def)

lemma evaluate_declaration_accuracy_closed_form:
  assumes "random_sample rnd test_states (min num_samples (int (length test_states))) = Inr sampled"
  shows "evaluate_declaration_accuracy encode_state rnd test_states num_samples =
     Inr (if sampled = [] then 0
          else sum_list (map ratio (filter (\<lambda>s. 0 < sum' s) sampled)) / real (length sampled),
          if sampled = [] then 0
          else real (length (filter
                  (\<lambda>s. 0 < sum' s \<and> 8 / 10 \<le> ratio s \<and> ratio s \<le> 12 / 10) sampled))
               / real (length sampled),
          if sampled = [] then 0
          else real (length (filter (\<lambda>s. 0 < sum' s \<and> sum' s < selectaction s) sampled))
               / real (length sampled))"
proof -
  let ?n = "min num_samples (int (length test_states))"
  have n: "?n = int (length sampled)"
    using random_sample_Inr(1)[OF assms] by simp
  have pos: "0 < ?n \<longleftrightarrow> sampled \<noteq> []"
    unfolding n by simp
  have rn: "real_of_int ?n = real (length sampled)"
    unfolding n by simp
  show ?thesis
    unfolding evaluate_declaration_accuracy_def Let_def assms declaration_loop_closed_form
    using pos rn by simp
qed


lemma filter_positive_all:
  assumes "\<forall>s \<in> set states. 0 < sum' s"
  shows "filter (\<lambda>s. 0 < sum' s) states = states"
    and "filter (\<lambda>s. 0 < sum' s \<and> P s) states = filter P states"
  using assms by (simp_all cong: filter_cong)

subsection \<open>The declaration metrics\<close>

text \<open>
  C2, amended: with a positive \<open>num_samples\<close> and a non-empty list of states,
  \<open>evaluate_declaration_accuracy\<close> scores a non-empty sample (as many states as the
  smaller of \<open>num_samples\<close> and the number of states, drawn without replacement) and
  returns three quotients by the size of the sample: (a) the sum of the ratios
  \<open>declared / actual\<close> of the sampled states with \<open>actual > 0\<close>, (b) the number of sampled
  states with \<open>actual > 0\<close> whose ratio lies in \<open>[0.8, 1.2]\<close>, (c) the number of sampled
  states with \<open>actual > 0\<close> and \<open>declared > actual\<close>. When every sampled state has
  \<open>actual > 0\<close>, these are the mean ratio, the accurate fraction and the overestimation
  rate as the specification words them.
\<close>

theorem declaration_accuracy_over_sample:
  assumes "0 < num_samples" and "test_states \<noteq> []"
  shows "\<exists>sampled.
           random_sample rnd test_states (min num_samples (int (length test_states))) = Inr sampled
         \<and> sampled \<noteq> []
         \<and> int (length sampled) = min num_samples (int (length test_states))
         \<and> mset sampled \<subseteq># mset test_states
         \<and> evaluate_declaration_accuracy encode_state rnd test_states num_samples =
             Inr (sum_list (map ratio (filter (\<lambda>s. 0 < sum' s) sampled)) / real (length sampled),
                  real (length (filter
                    (\<lambda>s. 0 < sum' s \<and> 8 / 10 \<le> ratio s \<and> ratio s \<le> 12 / 10) sampled))
                    / real (length sampled),
                  real (length (filter (\<lambda>s. 0 < sum' s \<and> sum' s < selectaction s) sampled))
                    / real (length sampled))
         \<and> ((\<forall>s \<in> set sampled. 0 < sum' s) \<longrightarrow>
              evaluate_declaration_accuracy encode_state rnd test_states num_samples =
                Inr (spec_mean_ratio sampled, spec_accuracy sampled,
                     spec_overestimation_rate sampled))"
proof -
  define n where "n = min num_samples (int (length test_states))"
  have n: "0 < n" "n \<le> int (length test_states)"
    using assms by (simp_all add: n_def)
  define sampled where "sampled = draw_without_replacement rnd test_states (nat n)"
  have "\<not> (n < 0 \<or> int (length test_states) < n)"
    using n by linarith
  then have "random_sample rnd test_states n = Inr sampled"
    by (simp only: random_sample_def sampled_def if_False)
  then have rs: "random_sample rnd test_states (min num_samples (int (length test_states)))
      = Inr sampled"
    by (simp only: n_def)
  have "int (length sampled) = n"
    using random_sample_Inr(1)[OF rs] by (simp only: n_def)
  then have ne: "sampled \<noteq> []"
    using n(1) by auto
  have len: "int (length sampled) = min num_samples (int (length test_states))"
    by (rule random_sample_Inr(1)[OF rs])
  have sub: "mset sampled \<subseteq># mset test_states"
    by (rule random_sample_Inr(2)[OF rs])
  have ev: "evaluate_declaration_accuracy encode_state rnd test_states num_samples =
      Inr (sum_list (map ratio (filter (\<lambda>s. 0 < sum' s) sampled)) / real (length sampled),
           real (length (filter
             (\<lambda>s. 0 < sum' s \<and> 8 / 10 \<le> ratio s \<and> ratio s \<le> 12 / 10) sampled))
             / real (length sampled),
           real (length (filter (\<lambda>s. 0 < sum' s \<and> sum' s < selectaction s) sampled))
             / real (length sampled))"
    using evaluate_declaration_accuracy_closed_form[OF rs] ne by simp
  have spec: "evaluate_declaration_accuracy encode_state rnd test_states num_samples =
      Inr (spec_mean_ratio sampled, spec_accuracy sampled, spec_overestimation_rate sampled)"
    if "\<forall>s \<in> set sampled. 0 < sum' s"
    unfolding ev spec_mean_ratio_def spec_accuracy_def spec_overestimation_rate_def Let_def
      filter_positive_all[OF that]
    by simp
  show ?thesis
    using rs ne len sub ev spec by blast
qed

theorem declaration_accuracy_over_sample_witness:
  "(0::int) < 100
   \<and> [\<lparr>selectaction = 10, sum' = 10\<rparr>, \<lparr>selectaction = 15, sum' = 10\<rparr>] \<noteq> []
   \<and> evaluate_declaration_accuracy row_encoder first_position
        [\<lparr>selectaction = 10, sum' = 10\<rparr>, \<lparr>selectaction = 15, sum' = 10\<rparr>] 100
      = Inr (5 / 4, 1 / 2, 1 / 2)"
proof -
  let ?states = "[\<lparr>selectaction = 10, sum' = 10\<rparr>, \<lparr>selectaction = 15, sum' = 10\<rparr>]"
  have pre: "(0::int) < 100" "?states \<noteq> []" by simp_all
  from declaration_accuracy_over_sample[OF pre, of first_position row_encoder]
  obtain sampled where
    rs: "random_sample first_position ?states (min 100 (int (length ?states))) = Inr sampled"
    and ev: "evaluate_declaration_accuracy row_encoder first_position ?states 100 =
      Inr (sum_list (map ratio (filter (\<lambda>s. 0 < sum' s) sampled)) / real (length sampled),
           real (length (filter
             (\<lambda>s. 0 < sum' s \<and> 8 / 10 \<le> ratio s \<and> ratio s \<le> 12 / 10) sampled))
             / real (length sampled),
           real (length (filter (\<lambda>s. 0 < sum' s \<and> sum' s < selectaction s) sampled))
             / real (length sampled))"
    by blast
  have "random_sample first_position ?states (min 100 (int (length ?states))) = Inr ?states"
    by (simp add: random_sample_def first_position_def numeral_2_eq_2)
  with rs have s: "sampled = ?states" by simp
  show ?thesis
    using ev unfolding s by (simp add: ratio_def)
qed

text \<open>
  The claim as the specification words it fails on the two states \<open>(declared, actual) =
  (10, 10)\<close> and \<open>(5, 0)\<close>: the code returns \<open>(1/2, 1/2, 0)\<close>, while the mean ratio over
  the states with \<open>actual > 0\<close> is 1 and half of the states have \<open>declared > actual\<close>.
\<close>

theorem declaration_accuracy_counterexample:
  "evaluate_declaration_accuracy row_encoder first_position
     [\<lparr>selectaction = 10, sum' = 10\<rparr>, \<lparr>selectaction = 5, sum' = 0\<rparr>] 100
     = Inr (1 / 2, 1 / 2, 0)
   \<and> spec_mean_ratio [\<lparr>selectaction = 10, sum' = 10\<rparr>, \<lparr>selectaction = 5, sum' = 0\<rparr>] = 1
   \<and> spec_accuracy [\<lparr>selectaction = 10, sum' = 10\<rparr>, \<lparr>selectaction = 5, sum' = 0\<rparr>] = 1 / 2
   \<and> spec_overestimation_rate
        [\<lparr>selectaction = 10, sum' = 10\<rparr>, \<lparr>selectaction = 5, sum' = 0\<rparr>] = 1 / 2
   \<and> evaluate_declaration_accuracy row_encoder first_position
        [\<lparr>selectaction = 10, sum' = 10\<rparr>, \<lparr>selectaction = 5, sum' = 0\<rparr>] 100
      \<noteq> Inr (spec_mean_ratio [\<lparr>selectaction = 10, sum' = 10\<rparr>, \<lparr>selectaction = 5, sum' = 0\<rparr>],
              spec_accuracy [\<lparr>selectaction = 10, sum' = 10\<rparr>, \<lparr>selectaction = 5, sum' = 0\<rparr>],
              spec_overestimation_rate
                [\<lparr>selectaction = 10, sum' = 10\<rparr>, \<lparr>selectaction = 5, sum' = 0\<rparr>])"
  by (simp add: evaluate_declaration_accuracy_def random_sample_def first_position_def
      numeral_2_eq_2 spec_mean_ratio_def spec_accuracy_def spec_overestimation_rate_def
      ratio_def Let_def)

text \<open>
  C5: for a non-negative \<open>num_samples\<close>, \<open>evaluate_declaration_accuracy\<close> raises nothing
  and returns \<open>(0, 0, 0)\<close> when the list of states is empty or \<open>num_samples\<close> is 0 (these
  are the cases of an empty sample), and also whenever no sampled state has an actual sum
  above 0.
\<close>

theorem declaration_accuracy_zero_defaults:
  assumes "0 \<le> num_samples"
  shows "\<exists>sampled.
           random_sample rnd test_states (min num_samples (int (length test_states))) = Inr sampled
         \<and> (sampled = [] \<longleftrightarrow> test_states = [] \<or> num_samples = 0)
         \<and> (sampled = [] \<longrightarrow>
              evaluate_declaration_accuracy encode_state rnd test_states num_samples
                = Inr (0, 0, 0))
         \<and> ((\<forall>s \<in> set sampled. \<not> 0 < sum' s) \<longrightarrow>
              evaluate_declaration_accuracy encode_state rnd test_states num_samples
                = Inr (0, 0, 0))"
proof -
  define n where "n = min num_samples (int (length test_states))"
  have n: "0 \<le> n" "n \<le> int (length test_states)"
    using assms by (simp_all add: n_def)
  define sampled where "sampled = draw_without_replacement rnd test_states (nat n)"
  have "\<not> (n < 0 \<or> int (length test_states) < n)"
    using n by linarith
  then have "random_sample rnd test_states n = Inr sampled"
    by (simp only: random_sample_def sampled_def if_False)
  then have rs: "random_sample rnd test_states (min num_samples (int (length test_states)))
      = Inr sampled"
    by (simp only: n_def)
  have len: "int (length sampled) = n"
    using random_sample_Inr(1)[OF rs] by (simp only: n_def)
  have empty: "sampled = [] \<longleftrightarrow> test_states = [] \<or> num_samples = 0"
  proof -
    have "sampled = [] \<longleftrightarrow> n = 0" using len by auto
    also have "\<dots> \<longleftrightarrow> test_states = [] \<or> num_samples = 0"
      using assms by (auto simp: n_def min_def)
    finally show ?thesis .
  qed
  have zero: "evaluate_declaration_accuracy encode_state rnd test_states num_samples
      = Inr (0, 0, 0)"
    if "\<forall>s \<in> set sampled. \<not> 0 < sum' s"
  proof -
    have "filter (\<lambda>s. 0 < sum' s) sampled = []"
      and "filter (\<lambda>s. 0 < sum' s \<and> 8 / 10 \<le> ratio s \<and> ratio s \<le> 12 / 10) sampled = []"
      and "filter (\<lambda>s. 0 < sum' s \<and> sum' s < selectaction s) sampled = []"
      using that by (simp_all add: filter_empty_conv)
    then show ?thesis
      using evaluate_declaration_accuracy_closed_form[OF rs, of encode_state] by simp
  qed
  have zero_empty: "evaluate_declaration_accuracy encode_state rnd test_states num_samples
      = Inr (0, 0, 0)" if "sampled = []"
    using zero that by simp
  show ?thesis
    using rs empty zero zero_empty by blast
qed

theorem declaration_accuracy_zero_defaults_witness:
  "(0::int) \<le> 10
   \<and> evaluate_declaration_accuracy row_encoder first_position [] 10 = Inr (0, 0, 0)
   \<and> evaluate_declaration_accuracy row_encoder first_position
        [\<lparr>selectaction = 5, sum' = 0\<rparr>, \<lparr>selectaction = 3, sum' = -2\<rparr>] 10 = Inr (0, 0, 0)"
proof -
  let ?states = "[\<lparr>selectaction = 5, sum' = 0\<rparr>, \<lparr>selectaction = 3, sum' = -2\<rparr>]"
  have pre: "(0::int) \<le> 10" by simp
  from declaration_accuracy_zero_defaults[OF pre, of first_position "[]" row_encoder]
  obtain sampled0 :: "game_state list" where
    e0: "sampled0 = [] \<longleftrightarrow> ([] :: game_state list) = [] \<or> (10::int) = 0"
    and z0: "sampled0 = [] \<longrightarrow>
      evaluate_declaration_accuracy row_encoder first_position [] 10 = Inr (0, 0, 0)"
    by blast
  have first: "evaluate_declaration_accuracy row_encoder first_position [] 10 = Inr (0, 0, 0)"
    using e0 z0 by simp
  from declaration_accuracy_zero_defaults[OF pre, of first_position ?states row_encoder]
  obtain sampled where
    rs: "random_sample first_position ?states (min 10 (int (length ?states))) = Inr sampled"
    and z: "(\<forall>s \<in> set sampled. \<not> 0 < sum' s) \<longrightarrow>
      evaluate_declaration_accuracy row_encoder first_position ?states 10 = Inr (0, 0, 0)"
    by blast
  have "random_sample first_position ?states (min 10 (int (length ?states))) = Inr ?states"
    by (simp add: random_sample_def first_position_def numeral_2_eq_2)
  with rs have s: "sampled = ?states" by simp
  have second: "evaluate_declaration_accuracy row_encoder first_position ?states 10
      = Inr (0, 0, 0)"
    using z unfolding s by simp
  show ?thesis using first second by simp
qed

subsection \<open>Helper lemmas on the strategy update and the training loop\<close>

lemma draw_without_replacement_numeral:
  "draw_without_replacement rnd xs (numeral k) =
     (let j = rnd (pred_numeral k) mod length xs
      in xs ! j # draw_without_replacement rnd (take j xs @ drop (Suc j) xs) (pred_numeral k))"
  by (simp add: numeral_eq_Suc)

lemma sample_enough:
  assumes "batch_size \<le> length (buffer rb)"
  shows "\<exists>samples. sample rnd rb batch_size = Inr samples \<and> length samples = batch_size
           \<and> mset samples \<subseteq># mset (buffer rb)"
  using assms mset_draw_without_replacement[OF assms, of rnd]
  by (simp add: sample_def)

lemma model_fit_Inr:
  "model_fit outcome net inputs targets epochs = Inr (loss, net') \<longleftrightarrow>
     outcome (fit_calls net) (inputs, targets, epochs) = Inr loss
     \<and> net' = net\<lparr>fit_calls := fit_calls net @ [(inputs, targets, epochs)]\<rparr>"
  by (auto simp: model_fit_def split: sum.splits)

lemma fit_sampled_batch_reached:
  assumes "np_array (map fst samples) = Inr states"
    and "np_array (map (\<lambda>s. vector (snd s)) samples) = Inr policy_targets"
    and "reshape_guard input_size states = Inr states'"
  shows "fit_sampled_batch input_size outcome strategy_net samples epochs =
     (case outcome (fit_calls strategy_net) (states', policy_targets, epochs) of
        Inl e \<Rightarrow> Inl e
      | Inr loss \<Rightarrow>
          Inr (strategy_net\<lparr>fit_calls :=
                 fit_calls strategy_net @ [(states', policy_targets, epochs)]\<rparr>))"
  using assms by (simp add: fit_sampled_batch_def model_fit_def split: sum.splits)

lemma fit_sampled_batch_Inr:
  assumes "fit_sampled_batch input_size outcome strategy_net samples epochs = Inr strategy_net'"
  shows "\<exists>states policy_targets states'.
           np_array (map fst samples) = Inr states
         \<and> np_array (map (\<lambda>s. vector (snd s)) samples) = Inr policy_targets
         \<and> reshape_guard input_size states = Inr states'
         \<and> fit_calls strategy_net' =
             fit_calls strategy_net @ [(states', policy_targets, epochs)]"
  using assms
  by (auto simp: fit_sampled_batch_def model_fit_Inr split: sum.splits prod.splits)

lemma update_strategy_network_skip:
  assumes "add_all_info_sets add_rnd advantages reservoir_buffer = Inr rb"
    and "length (buffer rb) < batch_size"
  shows "update_strategy_network input_size outcome add_rnd sample_rnd strategy_net
           reservoir_buffer advantages batch_size epochs = Inr (strategy_net, rb)"
  using assms by (simp add: update_strategy_network_def)

lemma update_strategy_network_fit:
  assumes "add_all_info_sets add_rnd advantages reservoir_buffer = Inr rb"
    and "batch_size \<le> length (buffer rb)"
    and "sample sample_rnd rb batch_size = Inr samples"
  shows "update_strategy_network input_size outcome add_rnd sample_rnd strategy_net
           reservoir_buffer advantages batch_size epochs =
         (case fit_sampled_batch input_size outcome strategy_net samples epochs of
            Inl e \<Rightarrow> Inl e
          | Inr strategy_net' \<Rightarrow> Inr (strategy_net', rb))"
  using assms by (simp add: update_strategy_network_def)

lemma update_strategy_network_Inr:
  assumes "update_strategy_network input_size outcome add_rnd sample_rnd strategy_net
             reservoir_buffer advantages batch_size epochs = Inr (strategy_net', rb)"
  shows "add_all_info_sets add_rnd advantages reservoir_buffer = Inr rb"
    and "length (buffer rb) < batch_size \<Longrightarrow> strategy_net' = strategy_net"
    and "batch_size \<le> length (buffer rb) \<Longrightarrow>
           \<exists>samples. sample sample_rnd rb batch_size = Inr samples
             \<and> fit_sampled_batch input_size outcome strategy_net samples epochs
                 = Inr strategy_net'"
  using assms
  by (auto simp: update_strategy_network_def split: sum.splits if_splits)

lemma training_iteration_Inr:
  assumes "training_iteration input_size encode_state outcome draws current_state i
             (advantage_net, h) = Inr (advantage_net', h')"
  shows "\<exists>batch_indices encoded_states encoded_states'.
           np_random_choice (batch_draw draws) (length current_state) 32 = Inr batch_indices
         \<and> np_array (map encode_state (map (\<lambda>idx. current_state ! idx) batch_indices))
             = Inr encoded_states
         \<and> reshape_guard input_size encoded_states = Inr encoded_states'
         \<and> fit_calls advantage_net' =
             fit_calls advantage_net @
               [(encoded_states', np_random_rand (target_draw draws) 32 141, 1)]"
  using assms
  by (auto simp: training_iteration_def Let_def model_fit_Inr split: sum.splits prod.splits)

lemma training_iteration_empty_pool:
  "training_iteration input_size encode_state outcome draws [] i st = Inl ValueError"
  by (simp add: training_iteration_def np_random_choice_def split: prod.splits)


lemma np_array_replicate:
  assumes "0 < n"
  shows "np_array (replicate n r) =
    Inr \<lparr>shape = n # shape r, data = concat (replicate n (data r))\<rparr>"
proof -
  obtain m where n: "n = Suc m" using assms by (cases n) simp_all
  show ?thesis
    unfolding n by (simp add: np_array_def list_all_iff)
qed

subsection \<open>The empty state pool\<close>

text \<open>
  C3, amended: when the pool of self-play states is empty, an iteration of the training
  loop fails at its first step, the drawing of the batch indices, with the ValueError of
  \<^verbatim>\<open>np.random.choice\<close>, whatever the encoder, the estimator and the draws are; so
  \<^verbatim>\<open>evaluate_cfr_training\<close> with at least one iteration ends with that ValueError,
  which reaches the caller.
\<close>

theorem empty_pool_fails_fast:
  "training_iteration input_size encode_state outcome iteration_draws [] i st = Inl ValueError
   \<and> (0 < iterations \<longrightarrow>
        evaluate_cfr_training input_size encode_state outcome draws advantage_net []
          iterations = Inl ValueError)"
proof -
  have "evaluate_cfr_training input_size encode_state outcome draws advantage_net []
      iterations = Inl ValueError" if "0 < iterations"
  proof -
    have "[0..<iterations] = 0 # [1..<iterations]"
      using that by (simp add: upt_conv_Cons)
    then show ?thesis
      by (simp add: evaluate_cfr_training_def training_iteration_empty_pool)
  qed
  then show ?thesis
    by (simp add: training_iteration_empty_pool)
qed

theorem empty_pool_fails_fast_witness:
  "(0::nat) < 50
   \<and> evaluate_cfr_training 2 row_encoder fit_succeeds half_draws \<lparr>fit_calls = []\<rparr> [] 50
       = Inl ValueError
   \<and> training_iteration 2 row_encoder fit_succeeds (half_draws 0) [] 0
        (\<lparr>fit_calls = []\<rparr>, empty_history) = Inl ValueError"
  using empty_pool_fails_fast[of 2 row_encoder fit_succeeds "half_draws 0" 0
      "(\<lparr>fit_calls = []\<rparr>, empty_history)" 50 half_draws "\<lparr>fit_calls = []\<rparr>"]
  by simp

text \<open>
  The error of the empty pool is not an \<open>EmptyStatePoolError\<close>: no such exception is
  defined or raised by the code.
\<close>

theorem empty_pool_counterexample:
  "evaluate_cfr_training 2 row_encoder fit_succeeds half_draws \<lparr>fit_calls = []\<rparr> [] 1
     = Inl ValueError
   \<and> evaluate_cfr_training 2 row_encoder fit_succeeds half_draws \<lparr>fit_calls = []\<rparr> [] 1
     \<noteq> Inl EmptyStatePoolError"
  by (simp add: evaluate_cfr_training_def training_iteration_def np_random_choice_def
      empty_history_def)

subsection \<open>Helper lemmas on well-formed batches\<close>

lemma regret_match_length:
  "regret_match v = Inr p \<Longrightarrow> length p = length v"
  by (auto simp: regret_match_def Let_def split: sum.splits if_splits)

lemma regret_match_nonempty:
  "v \<noteq> [] \<Longrightarrow> \<exists>p. regret_match v = Inr p"
  by (cases v) (simp_all add: regret_match_def Let_def)

lemma list_all_update:
  assumes "list_all P xs" and "P x"
  shows "list_all P (xs[i := x])"
proof -
  have "set (xs[i := x]) \<subseteq> insert x (set xs)"
    by (rule set_update_subset_insert)
  with assms show ?thesis
    unfolding list_all_iff by blast
qed

lemma uniform_entries_add:
  assumes "uniform_entries sh n (buffer rb)" and "shape enc = sh" and "length p = n"
  shows "uniform_entries sh n (buffer (add rnd (enc, p) rb))"
proof -
  let ?P = "\<lambda>entry. shape (fst entry) = sh \<and> length (snd entry) = n"
  have all: "list_all ?P (buffer rb)" and new: "?P (enc, p)"
    using assms by (simp_all add: uniform_entries_def)
  have "list_all ?P (buffer rb @ [(enc, p)])"
    using all new by simp
  moreover have "list_all ?P ((buffer rb)[i := (enc, p)])" for i
    by (rule list_all_update[OF all new])
  ultimately show ?thesis
    using all by (simp add: uniform_entries_def add_def Let_def)
qed

lemma add_policy_targets_uniform:
  assumes "uniform_entries sh n obs" and "0 < n" and "uniform_entries sh n (buffer rb)"
  shows "\<exists>rb'. add_policy_targets rnd obs rb = Inr rb' \<and> uniform_entries sh n (buffer rb')"
  using assms
proof (induction obs arbitrary: rb)
  case Nil
  then show ?case by simp
next
  case (Cons ob obs)
  obtain enc v where ob: "ob = (enc, v)" by (cases ob)
  have enc: "shape enc = sh" and v: "length v = n" and rest: "uniform_entries sh n obs"
    using Cons.prems(1) by (simp_all add: uniform_entries_def ob)
  have "v \<noteq> []" using v Cons.prems(2) by auto
  then obtain p where p: "regret_match v = Inr p"
    using regret_match_nonempty by blast
  have "length p = n" using regret_match_length[OF p] v by simp
  then have "uniform_entries sh n (buffer (add rnd (enc, p) rb))"
    by (rule uniform_entries_add[OF Cons.prems(3) enc])
  from Cons.IH[OF rest Cons.prems(2) this] show ?case
    by (simp add: ob p)
qed

lemma add_all_info_sets_uniform:
  assumes "list_all (\<lambda>item. uniform_entries sh n (snd item)) advantages" and "0 < n"
    and "uniform_entries sh n (buffer rb)"
  shows "\<exists>rb'. add_all_info_sets rnd advantages rb = Inr rb'
           \<and> uniform_entries sh n (buffer rb')"
  using assms
proof (induction advantages arbitrary: rb)
  case Nil
  then show ?case by simp
next
  case (Cons item advantages)
  obtain info_set advantage_data where item: "item = (info_set, advantage_data)"
    by (cases item)
  have here: "uniform_entries sh n advantage_data"
    and rest: "list_all (\<lambda>item. uniform_entries sh n (snd item)) advantages"
    using Cons.prems(1) by (simp_all add: item)
  from add_policy_targets_uniform[OF here Cons.prems(2,3), of rnd] obtain rb1 where
    rb1: "add_policy_targets rnd advantage_data rb = Inr rb1"
    and u1: "uniform_entries sh n (buffer rb1)"
    by blast
  from Cons.IH[OF rest Cons.prems(2) u1] show ?case
    by (simp add: item rb1)
qed

lemma np_array_uniform:
  assumes "rows \<noteq> []" and "list_all (\<lambda>r. shape r = sh) rows"
  shows "np_array rows = Inr \<lparr>shape = length rows # sh, data = concat (map data rows)\<rparr>"
proof -
  obtain r rs where rows: "rows = r # rs" using assms(1) by (cases rows) simp_all
  show ?thesis
    using assms(2) unfolding rows by (simp add: np_array_def list_all_iff)
qed

lemma uniform_entries_subset:
  assumes "uniform_entries sh n entries" and "mset samples \<subseteq># mset entries"
  shows "uniform_entries sh n samples"
proof -
  have "set samples \<subseteq> set entries"
    using set_mset_mono[OF assms(2)] by simp
  then show ?thesis
    using assms(1) by (auto simp: uniform_entries_def list_all_iff)
qed

lemma sampled_batch_arrays:
  assumes "uniform_entries sh n samples" and "samples \<noteq> []"
  shows "np_array (map fst samples) =
           Inr \<lparr>shape = length samples # sh, data = concat (map (\<lambda>s. data (fst s)) samples)\<rparr>"
    and "np_array (map (\<lambda>s. vector (snd s)) samples) =
           Inr \<lparr>shape = [length samples, n], data = concat (map snd samples)\<rparr>"
proof -
  have "list_all (\<lambda>r. shape r = sh) (map fst samples)"
    using assms(1) by (simp add: uniform_entries_def list_all_iff)
  from np_array_uniform[OF _ this] assms(2)
  show "np_array (map fst samples) =
      Inr \<lparr>shape = length samples # sh, data = concat (map (\<lambda>s. data (fst s)) samples)\<rparr>"
    by (simp add: comp_def)
  have "list_all (\<lambda>r. shape r = [n]) (map (\<lambda>s. vector (snd s)) samples)"
    using assms(1) by (simp add: uniform_entries_def list_all_iff vector_def)
  from np_array_uniform[OF _ this] assms(2)
  show "np_array (map (\<lambda>s. vector (snd s)) samples) =
      Inr \<lparr>shape = [length samples, n], data = concat (map snd samples)\<rparr>"
    by (simp add: comp_def vector_def)
qed

lemma reshape_guard_stacked:
  assumes "length sh = 2 \<longrightarrow> 0 < input_size \<and> input_size dvd prod_list sh"
  shows "\<exists>states'. reshape_guard input_size \<lparr>shape = b # sh, data = d\<rparr> = Inr states'
           \<and> data states' = d
           \<and> shape states' =
               (if length sh = 2 then [b * prod_list sh div input_size, input_size]
                else b # sh)"
proof (cases "length sh = 2")
  case True
  then have "0 < input_size" and "input_size dvd b * prod_list sh"
    using assms by simp_all
  then show ?thesis
    using True by (simp add: reshape_guard_def reshape_rows_def np_size_def)
next
  case False
  then show ?thesis
    by (simp add: reshape_guard_def)
qed

lemma sampled_batch_fit:
  assumes u: "uniform_entries sh n samples"
    and g: "length sh = 2 \<longrightarrow> 0 < input_size \<and> input_size dvd prod_list sh"
  shows "\<exists>states policy_targets states'.
           np_array (map fst samples) = Inr states
         \<and> np_array (map (\<lambda>s. vector (snd s)) samples) = Inr policy_targets
         \<and> reshape_guard input_size states = Inr states'
         \<and> data states' = data states
         \<and> (samples \<noteq> [] \<longrightarrow>
              shape states = length samples # sh
            \<and> shape policy_targets = [length samples, n]
            \<and> shape states' =
                (if length sh = 2
                 then [length samples * prod_list sh div input_size, input_size]
                 else length samples # sh))
         \<and> fit_sampled_batch input_size outcome strategy_net samples epochs =
             (case outcome (fit_calls strategy_net) (states', policy_targets, epochs) of
                Inl e \<Rightarrow> Inl e
              | Inr loss \<Rightarrow>
                  Inr (strategy_net\<lparr>fit_calls :=
                         fit_calls strategy_net @ [(states', policy_targets, epochs)]\<rparr>))"
proof (cases "samples = []")
  case True
  have a: "np_array (map fst samples) = Inr \<lparr>shape = [0], data = []\<rparr>"
    and b: "np_array (map (\<lambda>s. vector (snd s)) samples) = Inr \<lparr>shape = [0], data = []\<rparr>"
    and c: "reshape_guard input_size \<lparr>shape = [0], data = []\<rparr> = Inr \<lparr>shape = [0], data = []\<rparr>"
    using True by (simp_all add: np_array_def reshape_guard_def)
  show ?thesis
    using True a b c fit_sampled_batch_reached[OF a b c, of outcome strategy_net epochs]
    by auto
next
  case False
  let ?states = "\<lparr>shape = length samples # sh,
      data = concat (map (\<lambda>s. data (fst s)) samples)\<rparr>"
  let ?targets = "\<lparr>shape = [length samples, n], data = concat (map snd samples)\<rparr>"
  have a: "np_array (map fst samples) = Inr ?states"
    and b: "np_array (map (\<lambda>s. vector (snd s)) samples) = Inr ?targets"
    using sampled_batch_arrays[OF u False] by simp_all
  from reshape_guard_stacked[OF g, of "length samples" "data ?states"]
  obtain states' where
    c: "reshape_guard input_size ?states = Inr states'"
    and d: "data states' = data ?states"
    and s: "shape states' =
      (if length sh = 2 then [length samples * prod_list sh div input_size, input_size]
       else length samples # sh)"
    by auto
  show ?thesis
    using a b c d s fit_sampled_batch_reached[OF a b c, of outcome strategy_net epochs]
    by auto
qed

lemma update_strategy_network_uniform:
  assumes wa: "list_all (\<lambda>item. uniform_entries sh n (snd item)) advantages"
    and n: "0 < n"
    and wb: "uniform_entries sh n (buffer reservoir_buffer)"
    and g: "length sh = 2 \<longrightarrow> 0 < input_size \<and> input_size dvd prod_list sh"
  shows "\<exists>rb. add_all_info_sets add_rnd advantages reservoir_buffer = Inr rb
       \<and> (length (buffer rb) < batch_size \<longrightarrow>
            update_strategy_network input_size outcome add_rnd sample_rnd strategy_net
              reservoir_buffer advantages batch_size epochs = Inr (strategy_net, rb))
       \<and> (batch_size \<le> length (buffer rb) \<longrightarrow>
            (\<exists>samples states policy_targets states'.
                sample sample_rnd rb batch_size = Inr samples
              \<and> length samples = batch_size
              \<and> mset samples \<subseteq># mset (buffer rb)
              \<and> np_array (map fst samples) = Inr states
              \<and> np_array (map (\<lambda>s. vector (snd s)) samples) = Inr policy_targets
              \<and> reshape_guard input_size states = Inr states'
              \<and> data states' = data states
              \<and> (0 < batch_size \<longrightarrow>
                   shape states = batch_size # sh
                 \<and> shape policy_targets = [batch_size, n]
                 \<and> shape states' =
                     (if length sh = 2
                      then [batch_size * prod_list sh div input_size, input_size]
                      else batch_size # sh))
              \<and> update_strategy_network input_size outcome add_rnd sample_rnd strategy_net
                  reservoir_buffer advantages batch_size epochs =
                (case outcome (fit_calls strategy_net) (states', policy_targets, epochs) of
                   Inl e \<Rightarrow> Inl e
                 | Inr loss \<Rightarrow>
                     Inr (strategy_net\<lparr>fit_calls := fit_calls strategy_net
                            @ [(states', policy_targets, epochs)]\<rparr>, rb))))"
proof -
  from add_all_info_sets_uniform[OF wa n wb, of add_rnd] obtain rb where
    a: "add_all_info_sets add_rnd advantages reservoir_buffer = Inr rb"
    and u: "uniform_entries sh n (buffer rb)"
    by blast
  have skip: "update_strategy_network input_size outcome add_rnd sample_rnd strategy_net
      reservoir_buffer advantages batch_size epochs = Inr (strategy_net, rb)"
    if "length (buffer rb) < batch_size"
    using that by (rule update_strategy_network_skip[OF a])
  have fit: "\<exists>samples states policy_targets states'.
      sample sample_rnd rb batch_size = Inr samples
    \<and> length samples = batch_size
    \<and> mset samples \<subseteq># mset (buffer rb)
    \<and> np_array (map fst samples) = Inr states
    \<and> np_array (map (\<lambda>s. vector (snd s)) samples) = Inr policy_targets
    \<and> reshape_guard input_size states = Inr states'
    \<and> data states' = data states
    \<and> (0 < batch_size \<longrightarrow>
         shape states = batch_size # sh
       \<and> shape policy_targets = [batch_size, n]
       \<and> shape states' =
           (if length sh = 2
            then [batch_size * prod_list sh div input_size, input_size]
            else batch_size # sh))
    \<and> update_strategy_network input_size outcome add_rnd sample_rnd strategy_net
        reservoir_buffer advantages batch_size epochs =
      (case outcome (fit_calls strategy_net) (states', policy_targets, epochs) of
         Inl e \<Rightarrow> Inl e
       | Inr loss \<Rightarrow>
           Inr (strategy_net\<lparr>fit_calls := fit_calls strategy_net
                  @ [(states', policy_targets, epochs)]\<rparr>, rb))"
    if enough: "batch_size \<le> length (buffer rb)"
  proof -
    from sample_enough[OF enough, of sample_rnd] obtain samples where
      s: "sample sample_rnd rb batch_size = Inr samples"
      and len: "length samples = batch_size"
      and sub: "mset samples \<subseteq># mset (buffer rb)"
      by blast
    have us: "uniform_entries sh n samples"
      by (rule uniform_entries_subset[OF u sub])
    from sampled_batch_fit[OF us g, of outcome strategy_net epochs]
    obtain states policy_targets states' where
      a1: "np_array (map fst samples) = Inr states"
      and a2: "np_array (map (\<lambda>s. vector (snd s)) samples) = Inr policy_targets"
      and a3: "reshape_guard input_size states = Inr states'"
      and a4: "data states' = data states"
      and a5: "samples \<noteq> [] \<longrightarrow>
          shape states = length samples # sh
        \<and> shape policy_targets = [length samples, n]
        \<and> shape states' =
            (if length sh = 2
             then [length samples * prod_list sh div input_size, input_size]
             else length samples # sh)"
      and a6: "fit_sampled_batch input_size outcome strategy_net samples epochs =
        (case outcome (fit_calls strategy_net) (states', policy_targets, epochs) of
           Inl e \<Rightarrow> Inl e
         | Inr loss \<Rightarrow>
             Inr (strategy_net\<lparr>fit_calls :=
                    fit_calls strategy_net @ [(states', policy_targets, epochs)]\<rparr>))"
      by blast
    have shapes: "0 < batch_size \<longrightarrow>
        shape states = batch_size # sh
      \<and> shape policy_targets = [batch_size, n]
      \<and> shape states' =
          (if length sh = 2
           then [batch_size * prod_list sh div input_size, input_size]
           else batch_size # sh)"
      using a5 len by auto
    have result: "update_strategy_network input_size outcome add_rnd sample_rnd strategy_net
        reservoir_buffer advantages batch_size epochs =
      (case outcome (fit_calls strategy_net) (states', policy_targets, epochs) of
         Inl e \<Rightarrow> Inl e
       | Inr loss \<Rightarrow>
           Inr (strategy_net\<lparr>fit_calls := fit_calls strategy_net
                  @ [(states', policy_targets, epochs)]\<rparr>, rb))"
      unfolding update_strategy_network_fit[OF a enough s] a6
      by (simp split: sum.splits)
    show ?thesis
      using s len sub a1 a2 a3 a4 shapes result by blast
  qed
  show ?thesis
    using a skip fit by blast
qed

lemma evaluate_declaration_accuracy_returns:
  assumes "0 \<le> num_samples"
  shows "\<exists>r. evaluate_declaration_accuracy encode_state rnd test_states num_samples = Inr r"
proof -
  define k where "k = min num_samples (int (length test_states))"
  have "\<not> (k < 0 \<or> int (length test_states) < k)"
    using assms by (simp add: k_def)
  then have "random_sample rnd test_states k
      = Inr (draw_without_replacement rnd test_states (nat k))"
    by (simp only: random_sample_def if_False)
  then have "random_sample rnd test_states (min num_samples (int (length test_states)))
      = Inr (draw_without_replacement rnd test_states (nat k))"
    by (simp only: k_def)
  from evaluate_declaration_accuracy_closed_form[OF this, of encode_state]
  show ?thesis by blast
qed

lemma evaluate_win_rate_returns:
  assumes "0 < num_games"
  shows "\<exists>w. evaluate_win_rate results h num_games opponent = Inr w"
  using assms by (simp add: evaluate_win_rate_def Let_def)

lemma training_iteration_uniform:
  assumes ne: "current_state \<noteq> []"
    and enc: "\<forall>s \<in> set current_state. shape (encode_state s) = sh"
    and g: "length sh = 2 \<longrightarrow> 0 < input_size \<and> input_size dvd prod_list sh"
  shows "\<exists>batch_indices encoded_states encoded_states' ratios wins.
       np_random_choice (batch_draw draws) (length current_state) 32 = Inr batch_indices
     \<and> np_array (map encode_state (map (\<lambda>idx. current_state ! idx) batch_indices))
         = Inr encoded_states
     \<and> shape encoded_states = 32 # sh
     \<and> reshape_guard input_size encoded_states = Inr encoded_states'
     \<and> data encoded_states' = data encoded_states
     \<and> shape encoded_states' =
         (if length sh = 2 then [32 * prod_list sh div input_size, input_size] else 32 # sh)
     \<and> evaluate_declaration_accuracy encode_state (sample_draw draws) current_state 100
         = Inr ratios
     \<and> evaluate_win_rate (game_draw draws) h 50 ''random'' = Inr wins
     \<and> training_iteration input_size encode_state outcome draws current_state i
         (advantage_net, h) =
       (case outcome (fit_calls advantage_net)
               (encoded_states', np_random_rand (target_draw draws) 32 141, 1) of
          Inl e \<Rightarrow> Inl e
        | Inr adv_loss \<Rightarrow>
            Inr (advantage_net\<lparr>fit_calls := fit_calls advantage_net
                   @ [(encoded_states', np_random_rand (target_draw draws) 32 141, 1)]\<rparr>,
                 log_metrics i (Some adv_loss)
                   (Some (accuracy_draw draws * (2 / 10) + 6 / 10))
                   (Some (fst ratios)) (Some wins) h))"
proof -
  let ?idxs = "map (\<lambda>j. batch_draw draws j mod length current_state) [0..<32]"
  let ?rows = "map encode_state (map (\<lambda>idx. current_state ! idx) ?idxs)"
  have c: "np_random_choice (batch_draw draws) (length current_state) 32 = Inr ?idxs"
    using ne by (simp add: np_random_choice_def)
  have "\<forall>idx \<in> set ?idxs. idx < length current_state"
    using ne by auto
  then have "list_all (\<lambda>r. shape r = sh) ?rows"
    using enc by (auto simp: list_all_iff)
  moreover have "?rows \<noteq> []" by simp
  ultimately have a: "np_array ?rows =
      Inr \<lparr>shape = length ?rows # sh, data = concat (map data ?rows)\<rparr>"
    by (rule np_array_uniform[rotated])
  have len: "length ?rows = 32" by simp
  let ?batch = "\<lparr>shape = 32 # sh, data = concat (map data ?rows)\<rparr>"
  have a': "np_array ?rows = Inr ?batch"
    using a unfolding len .
  from reshape_guard_stacked[OF g, of 32 "data ?batch"]
  obtain batch' where
    r: "reshape_guard input_size ?batch = Inr batch'"
    and d: "data batch' = data ?batch"
    and s: "shape batch' =
      (if length sh = 2 then [32 * prod_list sh div input_size, input_size] else 32 # sh)"
    by auto
  obtain ratios where
    e: "evaluate_declaration_accuracy encode_state (sample_draw draws) current_state 100
      = Inr ratios"
    using evaluate_declaration_accuracy_returns[of 100 encode_state "sample_draw draws"
        current_state]
    by auto
  obtain wins where w: "evaluate_win_rate (game_draw draws) h 50 ''random'' = Inr wins"
    using evaluate_win_rate_returns[of 50 "game_draw draws" h "''random''"] by auto
  have t: "training_iteration input_size encode_state outcome draws current_state i
      (advantage_net, h) =
    (case outcome (fit_calls advantage_net)
            (batch', np_random_rand (target_draw draws) 32 141, 1) of
       Inl e \<Rightarrow> Inl e
     | Inr adv_loss \<Rightarrow>
         Inr (advantage_net\<lparr>fit_calls := fit_calls advantage_net
                @ [(batch', np_random_rand (target_draw draws) 32 141, 1)]\<rparr>,
              log_metrics i (Some adv_loss)
                (Some (accuracy_draw draws * (2 / 10) + 6 / 10))
                (Some (fst ratios)) (Some wins) h))"
    unfolding training_iteration_def Let_def prod.case c sum.case a' r e w model_fit_def
    by (cases ratios) (simp split: sum.splits)
  show ?thesis
    using c a' r d s e w t by (intro exI[of _ ?idxs] exI[of _ ?batch] exI[of _ batch']
        exI[of _ ratios] exI[of _ wins]) simp
qed

subsection \<open>The gate on the size of the strategy buffer\<close>

text \<open>
  C6: once the policy targets of this call have been added, a strategy buffer holding
  fewer than \<open>batch_size\<close> entries makes \<open>update_strategy_network\<close> return normally with
  the strategy network as it was: no fit is made. For well-formed data (every encoded
  state of one shape \<open>sh\<close>, every advantage and policy vector of one positive width \<open>n\<close>,
  and, when \<open>sh\<close> is 2-D so that a stacked batch has rank 3, a positive \<open>input_size\<close> that
  divides the size of \<open>sh\<close>) the additions succeed, and a buffer holding at least
  \<open>batch_size\<close> entries leads to a fit: \<open>batch_size\<close> entries are sampled, their arrays
  are built and guarded, and the result of the call is that of fitting the strategy
  network on them; on success the network has received exactly that one more call.
\<close>

theorem strategy_fit_gate:
  "(add_all_info_sets add_rnd advantages reservoir_buffer = Inr rb
      \<and> length (buffer rb) < batch_size \<longrightarrow>
        update_strategy_network input_size outcome add_rnd sample_rnd strategy_net
          reservoir_buffer advantages batch_size epochs = Inr (strategy_net, rb))
   \<and> (list_all (\<lambda>item. uniform_entries sh n (snd item)) advantages
      \<and> 0 < n
      \<and> uniform_entries sh n (buffer reservoir_buffer)
      \<and> (length sh = 2 \<longrightarrow> 0 < input_size \<and> input_size dvd prod_list sh) \<longrightarrow>
        (\<exists>rb'. add_all_info_sets add_rnd advantages reservoir_buffer = Inr rb'
           \<and> (length (buffer rb') < batch_size \<longrightarrow>
                update_strategy_network input_size outcome add_rnd sample_rnd strategy_net
                  reservoir_buffer advantages batch_size epochs = Inr (strategy_net, rb'))
           \<and> (batch_size \<le> length (buffer rb') \<longrightarrow>
                (\<exists>samples states policy_targets states'.
                    sample sample_rnd rb' batch_size = Inr samples
                  \<and> length samples = batch_size
                  \<and> mset samples \<subseteq># mset (buffer rb')
                  \<and> np_array (map fst samples) = Inr states
                  \<and> np_array (map (\<lambda>s. vector (snd s)) samples) = Inr policy_targets
                  \<and> reshape_guard input_size states = Inr states'
                  \<and> data states' = data states
                  \<and> update_strategy_network input_size outcome add_rnd sample_rnd
                      strategy_net reservoir_buffer advantages batch_size epochs =
                    (case outcome (fit_calls strategy_net)
                            (states', policy_targets, epochs) of
                       Inl e \<Rightarrow> Inl e
                     | Inr loss \<Rightarrow>
                         Inr (strategy_net\<lparr>fit_calls := fit_calls strategy_net
                                @ [(states', policy_targets, epochs)]\<rparr>, rb'))))))"
proof (intro conjI impI)
  assume "add_all_info_sets add_rnd advantages reservoir_buffer = Inr rb
    \<and> length (buffer rb) < batch_size"
  then show "update_strategy_network input_size outcome add_rnd sample_rnd strategy_net
      reservoir_buffer advantages batch_size epochs = Inr (strategy_net, rb)"
    using update_strategy_network_skip by blast
next
  assume wf: "list_all (\<lambda>item. uniform_entries sh n (snd item)) advantages
    \<and> 0 < n
    \<and> uniform_entries sh n (buffer reservoir_buffer)
    \<and> (length sh = 2 \<longrightarrow> 0 < input_size \<and> input_size dvd prod_list sh)"
  then have wa: "list_all (\<lambda>item. uniform_entries sh n (snd item)) advantages"
    and n: "0 < n"
    and wb: "uniform_entries sh n (buffer reservoir_buffer)"
    and g: "length sh = 2 \<longrightarrow> 0 < input_size \<and> input_size dvd prod_list sh"
    by blast+
  from update_strategy_network_uniform[OF wa n wb g, of add_rnd batch_size outcome
      sample_rnd strategy_net epochs]
  obtain rb' where
    a: "add_all_info_sets add_rnd advantages reservoir_buffer = Inr rb'"
    and skip: "length (buffer rb') < batch_size \<longrightarrow>
      update_strategy_network input_size outcome add_rnd sample_rnd strategy_net
        reservoir_buffer advantages batch_size epochs = Inr (strategy_net, rb')"
    and fit: "batch_size \<le> length (buffer rb') \<longrightarrow>
      (\<exists>samples states policy_targets states'.
          sample sample_rnd rb' batch_size = Inr samples
        \<and> length samples = batch_size
        \<and> mset samples \<subseteq># mset (buffer rb')
        \<and> np_array (map fst samples) = Inr states
        \<and> np_array (map (\<lambda>s. vector (snd s)) samples) = Inr policy_targets
        \<and> reshape_guard input_size states = Inr states'
        \<and> data states' = data states
        \<and> (0 < batch_size \<longrightarrow>
             shape states = batch_size # sh
           \<and> shape policy_targets = [batch_size, n]
           \<and> shape states' =
               (if length sh = 2
                then [batch_size * prod_list sh div input_size, input_size]
                else batch_size # sh))
        \<and> update_strategy_network input_size outcome add_rnd sample_rnd strategy_net
            reservoir_buffer advantages batch_size epochs =
          (case outcome (fit_calls strategy_net) (states', policy_targets, epochs) of
             Inl e \<Rightarrow> Inl e
           | Inr loss \<Rightarrow>
               Inr (strategy_net\<lparr>fit_calls := fit_calls strategy_net
                      @ [(states', policy_targets, epochs)]\<rparr>, rb')))"
    by blast
  have fit': "batch_size \<le> length (buffer rb') \<longrightarrow>
      (\<exists>samples states policy_targets states'.
          sample sample_rnd rb' batch_size = Inr samples
        \<and> length samples = batch_size
        \<and> mset samples \<subseteq># mset (buffer rb')
        \<and> np_array (map fst samples) = Inr states
        \<and> np_array (map (\<lambda>s. vector (snd s)) samples) = Inr policy_targets
        \<and> reshape_guard input_size states = Inr states'
        \<and> data states' = data states
        \<and> update_strategy_network input_size outcome add_rnd sample_rnd strategy_net
            reservoir_buffer advantages batch_size epochs =
          (case outcome (fit_calls strategy_net) (states', policy_targets, epochs) of
             Inl e \<Rightarrow> Inl e
           | Inr loss \<Rightarrow>
               Inr (strategy_net\<lparr>fit_calls := fit_calls strategy_net
                      @ [(states', policy_targets, epochs)]\<rparr>, rb')))"
    using fit by blast
  show "\<exists>rb'. add_all_info_sets add_rnd advantages reservoir_buffer = Inr rb'
     \<and> (length (buffer rb') < batch_size \<longrightarrow>
          update_strategy_network input_size outcome add_rnd sample_rnd strategy_net
            reservoir_buffer advantages batch_size epochs = Inr (strategy_net, rb'))
     \<and> (batch_size \<le> length (buffer rb') \<longrightarrow>
          (\<exists>samples states policy_targets states'.
              sample sample_rnd rb' batch_size = Inr samples
            \<and> length samples = batch_size
            \<and> mset samples \<subseteq># mset (buffer rb')
            \<and> np_array (map fst samples) = Inr states
            \<and> np_array (map (\<lambda>s. vector (snd s)) samples) = Inr policy_targets
            \<and> reshape_guard input_size states = Inr states'
            \<and> data states' = data states
            \<and> update_strategy_network input_size outcome add_rnd sample_rnd
                strategy_net reservoir_buffer advantages batch_size epochs =
              (case outcome (fit_calls strategy_net)
                      (states', policy_targets, epochs) of
                 Inl e \<Rightarrow> Inl e
               | Inr loss \<Rightarrow>
                   Inr (strategy_net\<lparr>fit_calls := fit_calls strategy_net
                          @ [(states', policy_targets, epochs)]\<rparr>, rb'))))"
    using a skip fit' by blast
qed

theorem strategy_fit_gate_witness:
  "add_all_info_sets first_position
       [(0 :: nat, [(\<lparr>shape = [1, 2], data = [1, 0]\<rparr>, [5, 5]),
                    (\<lparr>shape = [1, 2], data = [0, 1]\<rparr>, [1, 2])])]
       \<lparr>capacity = 10, buffer = [], seen_count = 0\<rparr>
     = Inr \<lparr>capacity = 10,
            buffer = [(\<lparr>shape = [1, 2], data = [1, 0]\<rparr>, [1 / 2, 1 / 2]),
                      (\<lparr>shape = [1, 2], data = [0, 1]\<rparr>, [1 / 1000002, 1000001 / 1000002])],
            seen_count = 2\<rparr>
   \<and> update_strategy_network 2 fit_succeeds first_position first_position \<lparr>fit_calls = []\<rparr>
       \<lparr>capacity = 10, buffer = [], seen_count = 0\<rparr>
       [(0 :: nat, [(\<lparr>shape = [1, 2], data = [1, 0]\<rparr>, [5, 5]),
                    (\<lparr>shape = [1, 2], data = [0, 1]\<rparr>, [1, 2])])] 3 10
     = Inr (\<lparr>fit_calls = []\<rparr>,
            \<lparr>capacity = 10,
             buffer = [(\<lparr>shape = [1, 2], data = [1, 0]\<rparr>, [1 / 2, 1 / 2]),
                       (\<lparr>shape = [1, 2], data = [0, 1]\<rparr>, [1 / 1000002, 1000001 / 1000002])],
             seen_count = 2\<rparr>)
   \<and> uniform_entries [1, 2] 2
       [(\<lparr>shape = [1, 2], data = [1, 0]\<rparr>, [5, 5]), (\<lparr>shape = [1, 2], data = [0, 1]\<rparr>, [1, 2])]
   \<and> update_strategy_network 2 fit_succeeds first_position first_position \<lparr>fit_calls = []\<rparr>
       \<lparr>capacity = 10, buffer = [], seen_count = 0\<rparr>
       [(0 :: nat, [(\<lparr>shape = [1, 2], data = [1, 0]\<rparr>, [5, 5]),
                    (\<lparr>shape = [1, 2], data = [0, 1]\<rparr>, [1, 2])])] 2 10
     = Inr (\<lparr>fit_calls =
              [(\<lparr>shape = [2, 2], data = [1, 0, 0, 1]\<rparr>,
                \<lparr>shape = [2, 2], data = [1 / 2, 1 / 2, 1 / 1000002, 1000001 / 1000002]\<rparr>,
                10)]\<rparr>,
            \<lparr>capacity = 10,
             buffer = [(\<lparr>shape = [1, 2], data = [1, 0]\<rparr>, [1 / 2, 1 / 2]),
                       (\<lparr>shape = [1, 2], data = [0, 1]\<rparr>, [1 / 1000002, 1000001 / 1000002])],
             seen_count = 2\<rparr>)"
proof -
  let ?obs = "[(\<lparr>shape = [1, 2], data = [1, 0]\<rparr>, [5, 5 :: real]),
               (\<lparr>shape = [1, 2], data = [0, 1]\<rparr>, [1, 2])]"
  let ?adv = "[(0 :: nat, ?obs)]"
  let ?empty = "\<lparr>capacity = 10, buffer = [], seen_count = 0\<rparr> :: policy_buffer"
  let ?first = "(\<lparr>shape = [1, 2], data = [1, 0]\<rparr>, [1 / 2, 1 / 2 :: real])"
  let ?second = "(\<lparr>shape = [1, 2], data = [0, 1]\<rparr>, [1 / 1000002, 1000001 / 1000002 :: real])"
  let ?rb = "\<lparr>capacity = 10, buffer = [?first, ?second], seen_count = 2\<rparr>"
  let ?fresh = "\<lparr>fit_calls = []\<rparr>"
  let ?stacked = "\<lparr>shape = [2, 1, 2], data = [1, 0, 0, 1]\<rparr>"
  let ?x = "\<lparr>shape = [2, 2], data = [1, 0, 0, 1]\<rparr>"
  let ?y = "\<lparr>shape = [2, 2], data = [1 / 2, 1 / 2, 1 / 1000002, 1000001 / 1000002]\<rparr>"
  have a: "add_all_info_sets first_position ?adv ?empty = Inr ?rb"
    by (simp add: regret_match_def epsilon_def add_def)
  have skip: "update_strategy_network 2 fit_succeeds first_position first_position ?fresh
      ?empty ?adv 3 10 = Inr (?fresh, ?rb)"
    using a strategy_fit_gate[where add_rnd = first_position and advantages = ?adv
        and reservoir_buffer = ?empty and rb = ?rb and batch_size = 3 and input_size = 2
        and outcome = fit_succeeds and sample_rnd = first_position and strategy_net = ?fresh
        and epochs = 10, THEN conjunct1]
    by simp
  have wf: "uniform_entries [1, 2] 2 ?obs"
    by (simp add: uniform_entries_def)
  have hyps: "list_all (\<lambda>item. uniform_entries [1, 2] 2 (snd item)) ?adv
      \<and> (0 :: nat) < 2
      \<and> uniform_entries [1, 2] 2 (buffer ?empty)
      \<and> (length [1 :: nat, 2] = 2 \<longrightarrow> (0 :: nat) < 2 \<and> (2 :: nat) dvd prod_list [1, 2])"
    using wf by (simp add: uniform_entries_def)
  from strategy_fit_gate[where add_rnd = first_position and advantages = ?adv
      and reservoir_buffer = ?empty and batch_size = 2 and input_size = 2 and sh = "[1, 2]"
      and n = 2 and outcome = fit_succeeds and sample_rnd = first_position
      and strategy_net = ?fresh and epochs = 10, THEN conjunct2, rule_format, OF hyps]
  obtain rb' where
    a': "add_all_info_sets first_position ?adv ?empty = Inr rb'"
    and f: "2 \<le> length (buffer rb') \<longrightarrow>
      (\<exists>samples states policy_targets states'.
          sample first_position rb' 2 = Inr samples
        \<and> np_array (map fst samples) = Inr states
        \<and> np_array (map (\<lambda>s. vector (snd s)) samples) = Inr policy_targets
        \<and> reshape_guard 2 states = Inr states'
        \<and> update_strategy_network 2 fit_succeeds first_position first_position ?fresh
            ?empty ?adv 2 10 =
          (case fit_succeeds (fit_calls ?fresh) (states', policy_targets, 10) of
             Inl e \<Rightarrow> Inl e
           | Inr loss \<Rightarrow>
               Inr (?fresh\<lparr>fit_calls := fit_calls ?fresh @ [(states', policy_targets, 10)]\<rparr>,
                    rb')))"
    by blast
  have rb': "rb' = ?rb" using a a' by simp
  from f obtain samples states policy_targets states' where
    s: "sample first_position ?rb 2 = Inr samples"
    and x0: "np_array (map fst samples) = Inr states"
    and y: "np_array (map (\<lambda>s. vector (snd s)) samples) = Inr policy_targets"
    and x: "reshape_guard 2 states = Inr states'"
    and res: "update_strategy_network 2 fit_succeeds first_position first_position ?fresh
        ?empty ?adv 2 10 =
      (case fit_succeeds (fit_calls ?fresh) (states', policy_targets, 10) of
         Inl e \<Rightarrow> Inl e
       | Inr loss \<Rightarrow>
           Inr (?fresh\<lparr>fit_calls := fit_calls ?fresh @ [(states', policy_targets, 10)]\<rparr>,
                ?rb))"
    unfolding rb' by auto
  have "sample first_position ?rb 2 = Inr [?first, ?second]"
    by (simp add: sample_def first_position_def draw_without_replacement_numeral)
  with s have samples: "samples = [?first, ?second]" by simp
  have "np_array (map fst [?first, ?second]) = Inr ?stacked"
    by (simp add: np_array_def)
  with x0 have states: "states = ?stacked" unfolding samples by simp
  have "np_array (map (\<lambda>s. vector (snd s)) [?first, ?second]) = Inr ?y"
    by (simp add: np_array_def vector_def)
  with y have targets: "policy_targets = ?y" unfolding samples by simp
  have "reshape_guard 2 ?stacked = Inr ?x"
    by (simp add: reshape_guard_def reshape_rows_def np_size_def)
  with x have states': "states' = ?x" unfolding states by simp
  have fitted: "update_strategy_network 2 fit_succeeds first_position first_position ?fresh
      ?empty ?adv 2 10 = Inr (\<lparr>fit_calls = [(?x, ?y, 10)]\<rparr>, ?rb)"
    using res unfolding states' targets by (simp add: fit_succeeds_def)
  show ?thesis
    using a skip wf fitted by simp
qed

subsection \<open>The reshape guard\<close>

text \<open>
  C7: for a positive \<open>input_size\<close>, the guard of both functions turns a rank-3 batch with
  a singleton middle axis, of shape \<open>(b, 1, input_size)\<close>, into the 2-D batch
  \<open>(b, input_size)\<close> of the same elements, and passes a batch of rank 2 (of any rank but
  3) unchanged. With encoded states of shape \<open>(1, input_size)\<close> or \<open>(input_size)\<close>, the
  batch that \<open>update_strategy_network\<close> stacks from its \<open>batch_size\<close> samples and the batch
  that an iteration of the training loop stacks from its 32 states reach the fit call
  with shape \<open>(batch_size, input_size)\<close> and \<open>(32, input_size)\<close>, and the result of
  either function is that of this fit call. Whatever the shapes, a fit call made by
  either function receives the batch as the guard returned it.
\<close>

theorem reshape_guard_before_fit:
  "(shape states = [b, 1, input_size] \<and> 0 < input_size \<longrightarrow>
      reshape_guard input_size states = Inr \<lparr>shape = [b, input_size], data = data states\<rparr>)
   \<and> (length (shape states) \<noteq> 3 \<longrightarrow> reshape_guard input_size states = Inr states)
   \<and> (0 < input_size \<and> (sh = [1, input_size] \<or> sh = [input_size])
       \<and> list_all (\<lambda>item. uniform_entries sh n (snd item)) advantages \<and> 0 < n
       \<and> uniform_entries sh n (buffer reservoir_buffer) \<and> 0 < batch_size \<longrightarrow>
        (\<exists>rb. add_all_info_sets add_rnd advantages reservoir_buffer = Inr rb
           \<and> (batch_size \<le> length (buffer rb) \<longrightarrow>
                (\<exists>samples batch batch' policy_targets.
                    sample sample_rnd rb batch_size = Inr samples
                  \<and> np_array (map fst samples) = Inr batch
                  \<and> shape batch = batch_size # sh
                  \<and> reshape_guard input_size batch = Inr batch'
                  \<and> shape batch' = [batch_size, input_size]
                  \<and> data batch' = data batch
                  \<and> update_strategy_network input_size outcome add_rnd sample_rnd
                      strategy_net reservoir_buffer advantages batch_size epochs =
                    (case outcome (fit_calls strategy_net) (batch', policy_targets, epochs) of
                       Inl e \<Rightarrow> Inl e
                     | Inr loss \<Rightarrow>
                         Inr (strategy_net\<lparr>fit_calls := fit_calls strategy_net
                                @ [(batch', policy_targets, epochs)]\<rparr>, rb))))))
   \<and> (0 < input_size \<and> (sh = [1, input_size] \<or> sh = [input_size])
       \<and> current_state \<noteq> []
       \<and> (\<forall>s \<in> set current_state. shape (encode_state s) = sh) \<longrightarrow>
        (\<exists>batch_indices encoded_states encoded_states' declaration_ratio wins.
            np_random_choice (batch_draw draws) (length current_state) 32 = Inr batch_indices
          \<and> np_array (map encode_state (map (\<lambda>idx. current_state ! idx) batch_indices))
              = Inr encoded_states
          \<and> shape encoded_states = 32 # sh
          \<and> reshape_guard input_size encoded_states = Inr encoded_states'
          \<and> shape encoded_states' = [32, input_size]
          \<and> data encoded_states' = data encoded_states
          \<and> training_iteration input_size encode_state outcome draws current_state i
              (advantage_net, h) =
            (case outcome (fit_calls advantage_net)
                    (encoded_states', np_random_rand (target_draw draws) 32 141, 1) of
               Inl e \<Rightarrow> Inl e
             | Inr adv_loss \<Rightarrow>
                 Inr (advantage_net\<lparr>fit_calls := fit_calls advantage_net
                        @ [(encoded_states', np_random_rand (target_draw draws) 32 141, 1)]\<rparr>,
                      log_metrics i (Some adv_loss)
                        (Some (accuracy_draw draws * (2 / 10) + 6 / 10))
                        (Some declaration_ratio) (Some wins) h))))
   \<and> (update_strategy_network input_size outcome add_rnd sample_rnd strategy_net
         reservoir_buffer advantages batch_size epochs = Inr (strategy_net', rb_after)
       \<and> batch_size \<le> length (buffer rb_after) \<longrightarrow>
        (\<exists>samples batch batch' policy_targets.
            sample sample_rnd rb_after batch_size = Inr samples
          \<and> np_array (map fst samples) = Inr batch
          \<and> reshape_guard input_size batch = Inr batch'
          \<and> fit_calls strategy_net' =
              fit_calls strategy_net @ [(batch', policy_targets, epochs)]))
   \<and> (training_iteration input_size encode_state outcome draws current_state i
         (advantage_net, h) = Inr (advantage_net', h') \<longrightarrow>
        (\<exists>batch_indices encoded_states encoded_states'.
            np_random_choice (batch_draw draws) (length current_state) 32 = Inr batch_indices
          \<and> np_array (map encode_state (map (\<lambda>idx. current_state ! idx) batch_indices))
              = Inr encoded_states
          \<and> reshape_guard input_size encoded_states = Inr encoded_states'
          \<and> fit_calls advantage_net' =
              fit_calls advantage_net @
                [(encoded_states', np_random_rand (target_draw draws) 32 141, 1)]))"
proof (intro conjI impI)
  assume a: "shape states = [b, 1, input_size] \<and> 0 < input_size"
  then have "np_size states = b * input_size"
    by (simp add: np_size_def)
  with a show "reshape_guard input_size states =
      Inr \<lparr>shape = [b, input_size], data = data states\<rparr>"
    by (simp add: reshape_guard_def reshape_rows_def)
next
  assume "length (shape states) \<noteq> 3"
  then show "reshape_guard input_size states = Inr states"
    by (simp add: reshape_guard_def)
next
  assume hyp: "0 < input_size \<and> (sh = [1, input_size] \<or> sh = [input_size])
    \<and> list_all (\<lambda>item. uniform_entries sh n (snd item)) advantages \<and> 0 < n
    \<and> uniform_entries sh n (buffer reservoir_buffer) \<and> 0 < batch_size"
  then have k: "0 < input_size" and sh: "sh = [1, input_size] \<or> sh = [input_size]"
    and wa: "list_all (\<lambda>item. uniform_entries sh n (snd item)) advantages"
    and n: "0 < n" and wb: "uniform_entries sh n (buffer reservoir_buffer)"
    and bs: "0 < batch_size"
    by blast+
  have g: "length sh = 2 \<longrightarrow> 0 < input_size \<and> input_size dvd prod_list sh"
    using k sh by auto
  have target: "(if length sh = 2 then [batch_size * prod_list sh div input_size, input_size]
      else batch_size # sh) = [batch_size, input_size]"
    using k sh by auto
  from update_strategy_network_uniform[OF wa n wb g, of add_rnd batch_size outcome
      sample_rnd strategy_net epochs]
  obtain rb where
    a: "add_all_info_sets add_rnd advantages reservoir_buffer = Inr rb"
    and fit: "batch_size \<le> length (buffer rb) \<longrightarrow>
      (\<exists>samples states policy_targets states'.
          sample sample_rnd rb batch_size = Inr samples
        \<and> length samples = batch_size
        \<and> mset samples \<subseteq># mset (buffer rb)
        \<and> np_array (map fst samples) = Inr states
        \<and> np_array (map (\<lambda>s. vector (snd s)) samples) = Inr policy_targets
        \<and> reshape_guard input_size states = Inr states'
        \<and> data states' = data states
        \<and> (0 < batch_size \<longrightarrow>
             shape states = batch_size # sh
           \<and> shape policy_targets = [batch_size, n]
           \<and> shape states' =
               (if length sh = 2
                then [batch_size * prod_list sh div input_size, input_size]
                else batch_size # sh))
        \<and> update_strategy_network input_size outcome add_rnd sample_rnd strategy_net
            reservoir_buffer advantages batch_size epochs =
          (case outcome (fit_calls strategy_net) (states', policy_targets, epochs) of
             Inl e \<Rightarrow> Inl e
           | Inr loss \<Rightarrow>
               Inr (strategy_net\<lparr>fit_calls := fit_calls strategy_net
                      @ [(states', policy_targets, epochs)]\<rparr>, rb)))"
    by blast
  have "\<exists>samples batch batch' policy_targets.
      sample sample_rnd rb batch_size = Inr samples
    \<and> np_array (map fst samples) = Inr batch
    \<and> shape batch = batch_size # sh
    \<and> reshape_guard input_size batch = Inr batch'
    \<and> shape batch' = [batch_size, input_size]
    \<and> data batch' = data batch
    \<and> update_strategy_network input_size outcome add_rnd sample_rnd
        strategy_net reservoir_buffer advantages batch_size epochs =
      (case outcome (fit_calls strategy_net) (batch', policy_targets, epochs) of
         Inl e \<Rightarrow> Inl e
       | Inr loss \<Rightarrow>
           Inr (strategy_net\<lparr>fit_calls := fit_calls strategy_net
                  @ [(batch', policy_targets, epochs)]\<rparr>, rb))"
    if "batch_size \<le> length (buffer rb)"
    using fit that bs unfolding target by blast
  with a show "\<exists>rb. add_all_info_sets add_rnd advantages reservoir_buffer = Inr rb
     \<and> (batch_size \<le> length (buffer rb) \<longrightarrow>
          (\<exists>samples batch batch' policy_targets.
              sample sample_rnd rb batch_size = Inr samples
            \<and> np_array (map fst samples) = Inr batch
            \<and> shape batch = batch_size # sh
            \<and> reshape_guard input_size batch = Inr batch'
            \<and> shape batch' = [batch_size, input_size]
            \<and> data batch' = data batch
            \<and> update_strategy_network input_size outcome add_rnd sample_rnd
                strategy_net reservoir_buffer advantages batch_size epochs =
              (case outcome (fit_calls strategy_net) (batch', policy_targets, epochs) of
                 Inl e \<Rightarrow> Inl e
               | Inr loss \<Rightarrow>
                   Inr (strategy_net\<lparr>fit_calls := fit_calls strategy_net
                          @ [(batch', policy_targets, epochs)]\<rparr>, rb))))"
    by blast
next
  assume hyp: "0 < input_size \<and> (sh = [1, input_size] \<or> sh = [input_size])
    \<and> current_state \<noteq> []
    \<and> (\<forall>s \<in> set current_state. shape (encode_state s) = sh)"
  then have k: "0 < input_size" and sh: "sh = [1, input_size] \<or> sh = [input_size]"
    and ne: "current_state \<noteq> []"
    and enc: "\<forall>s \<in> set current_state. shape (encode_state s) = sh"
    by blast+
  have g: "length sh = 2 \<longrightarrow> 0 < input_size \<and> input_size dvd prod_list sh"
    using k sh by auto
  have target: "(if length sh = 2 then [32 * prod_list sh div input_size, input_size]
      else 32 # sh) = [32, input_size]"
    using k sh by auto
  from training_iteration_uniform[OF ne enc g, of draws h outcome i advantage_net]
  obtain batch_indices encoded_states encoded_states'
    and ratios :: "real \<times> real \<times> real" and wins where
    f1: "np_random_choice (batch_draw draws) (length current_state) 32 = Inr batch_indices"
    and f2: "np_array (map encode_state (map (\<lambda>idx. current_state ! idx) batch_indices))
        = Inr encoded_states"
    and f3: "shape encoded_states = 32 # sh"
    and f4: "reshape_guard input_size encoded_states = Inr encoded_states'"
    and f5: "data encoded_states' = data encoded_states"
    and f6: "shape encoded_states' =
        (if length sh = 2 then [32 * prod_list sh div input_size, input_size] else 32 # sh)"
    and f7: "training_iteration input_size encode_state outcome draws current_state i
        (advantage_net, h) =
      (case outcome (fit_calls advantage_net)
              (encoded_states', np_random_rand (target_draw draws) 32 141, 1) of
         Inl e \<Rightarrow> Inl e
       | Inr adv_loss \<Rightarrow>
           Inr (advantage_net\<lparr>fit_calls := fit_calls advantage_net
                  @ [(encoded_states', np_random_rand (target_draw draws) 32 141, 1)]\<rparr>,
                log_metrics i (Some adv_loss)
                  (Some (accuracy_draw draws * (2 / 10) + 6 / 10))
                  (Some (fst ratios)) (Some wins) h))"
    by blast
  have f6': "shape encoded_states' = [32, input_size]"
    using f6 unfolding target .
  show "\<exists>batch_indices encoded_states encoded_states' declaration_ratio wins.
      np_random_choice (batch_draw draws) (length current_state) 32 = Inr batch_indices
    \<and> np_array (map encode_state (map (\<lambda>idx. current_state ! idx) batch_indices))
        = Inr encoded_states
    \<and> shape encoded_states = 32 # sh
    \<and> reshape_guard input_size encoded_states = Inr encoded_states'
    \<and> shape encoded_states' = [32, input_size]
    \<and> data encoded_states' = data encoded_states
    \<and> training_iteration input_size encode_state outcome draws current_state i
        (advantage_net, h) =
      (case outcome (fit_calls advantage_net)
              (encoded_states', np_random_rand (target_draw draws) 32 141, 1) of
         Inl e \<Rightarrow> Inl e
       | Inr adv_loss \<Rightarrow>
           Inr (advantage_net\<lparr>fit_calls := fit_calls advantage_net
                  @ [(encoded_states', np_random_rand (target_draw draws) 32 141, 1)]\<rparr>,
                log_metrics i (Some adv_loss)
                  (Some (accuracy_draw draws * (2 / 10) + 6 / 10))
                  (Some declaration_ratio) (Some wins) h))"
    by (rule exI[of _ batch_indices], rule exI[of _ encoded_states],
        rule exI[of _ encoded_states'], rule exI[of _ "fst ratios"], rule exI[of _ wins],
        intro conjI) (rule f1 f2 f3 f4 f5 f6' f7)+
next
  assume a: "update_strategy_network input_size outcome add_rnd sample_rnd strategy_net
      reservoir_buffer advantages batch_size epochs = Inr (strategy_net', rb_after)
    \<and> batch_size \<le> length (buffer rb_after)"
  then obtain samples where
    s: "sample sample_rnd rb_after batch_size = Inr samples"
    and f: "fit_sampled_batch input_size outcome strategy_net samples epochs = Inr strategy_net'"
    using update_strategy_network_Inr(3)[of input_size outcome add_rnd sample_rnd strategy_net
        reservoir_buffer advantages batch_size epochs strategy_net' rb_after]
    by blast
  from fit_sampled_batch_Inr[OF f] s
  show "\<exists>samples batch batch' policy_targets.
      sample sample_rnd rb_after batch_size = Inr samples
    \<and> np_array (map fst samples) = Inr batch
    \<and> reshape_guard input_size batch = Inr batch'
    \<and> fit_calls strategy_net' = fit_calls strategy_net @ [(batch', policy_targets, epochs)]"
    by blast
next
  assume "training_iteration input_size encode_state outcome draws current_state i
      (advantage_net, h) = Inr (advantage_net', h')"
  then show "\<exists>batch_indices encoded_states encoded_states'.
      np_random_choice (batch_draw draws) (length current_state) 32 = Inr batch_indices
    \<and> np_array (map encode_state (map (\<lambda>idx. current_state ! idx) batch_indices))
        = Inr encoded_states
    \<and> reshape_guard input_size encoded_states = Inr encoded_states'
    \<and> fit_calls advantage_net' =
        fit_calls advantage_net @
          [(encoded_states', np_random_rand (target_draw draws) 32 141, 1)]"
    by (rule training_iteration_Inr)
qed

theorem reshape_guard_before_fit_witness:
  "reshape_guard 2 \<lparr>shape = [2, 1, 2], data = [1, 0, 0, 1]\<rparr>
     = Inr \<lparr>shape = [2, 2], data = [1, 0, 0, 1]\<rparr>
   \<and> reshape_guard 2 \<lparr>shape = [2, 2], data = [1, 0, 0, 1]\<rparr>
     = Inr \<lparr>shape = [2, 2], data = [1, 0, 0, 1]\<rparr>
   \<and> uniform_entries [1, 2] 2
       [(\<lparr>shape = [1, 2], data = [3, 4]\<rparr>, [5, 5]), (\<lparr>shape = [1, 2], data = [5, 6]\<rparr>, [5, 5])]
   \<and> update_strategy_network 2 fit_succeeds first_position first_position \<lparr>fit_calls = []\<rparr>
       \<lparr>capacity = 10, buffer = [], seen_count = 0\<rparr>
       [(0 :: nat, [(\<lparr>shape = [1, 2], data = [3, 4]\<rparr>, [5, 5]),
                    (\<lparr>shape = [1, 2], data = [5, 6]\<rparr>, [5, 5])])] 2 10
     = Inr (\<lparr>fit_calls =
              [(\<lparr>shape = [2, 2], data = [3, 4, 5, 6]\<rparr>,
                \<lparr>shape = [2, 2], data = [1 / 2, 1 / 2, 1 / 2, 1 / 2]\<rparr>, 10)]\<rparr>,
            \<lparr>capacity = 10,
             buffer = [(\<lparr>shape = [1, 2], data = [3, 4]\<rparr>, [1 / 2, 1 / 2]),
                       (\<lparr>shape = [1, 2], data = [5, 6]\<rparr>, [1 / 2, 1 / 2])],
             seen_count = 2\<rparr>)
   \<and> shape (row_encoder \<lparr>selectaction = 10, sum' = 10\<rparr>) = [1, 2]
   \<and> training_iteration 2 row_encoder fit_succeeds (half_draws 0)
       [\<lparr>selectaction = 10, sum' = 10\<rparr>] 0 (\<lparr>fit_calls = []\<rparr>, empty_history)
     = Inr (\<lparr>fit_calls =
              [(\<lparr>shape = [32, 2], data = concat (replicate 32 [10, 10])\<rparr>,
                np_random_rand (\<lambda>k. 1 / 2) 32 141, 1)]\<rparr>,
            \<lparr>advantage_loss = [0], strategy_accuracy = [7 / 10],
             declaration_vs_sum_ratio = [1], win_rate = [0], epoch = [0]\<rparr>)"
proof -
  let ?s = "\<lparr>shape = [2, 1, 2], data = [1, 0, 0, 1]\<rparr>"
  let ?flat = "\<lparr>shape = [2, 2], data = [1, 0, 0, 1]\<rparr>"
  let ?obs = "[(\<lparr>shape = [1, 2], data = [3, 4]\<rparr>, [5, 5 :: real]),
               (\<lparr>shape = [1, 2], data = [5, 6]\<rparr>, [5, 5])]"
  let ?adv = "[(0 :: nat, ?obs)]"
  let ?empty = "\<lparr>capacity = 10, buffer = [], seen_count = 0\<rparr> :: policy_buffer"
  let ?rb = "\<lparr>capacity = 10,
      buffer = [(\<lparr>shape = [1, 2], data = [3, 4]\<rparr>, [1 / 2, 1 / 2 :: real]),
                (\<lparr>shape = [1, 2], data = [5, 6]\<rparr>, [1 / 2, 1 / 2])],
      seen_count = 2\<rparr>"
  let ?fresh = "\<lparr>fit_calls = []\<rparr>"
  let ?fitted = "\<lparr>fit_calls =
      [(\<lparr>shape = [2, 2], data = [3, 4, 5, 6]\<rparr>,
        \<lparr>shape = [2, 2], data = [1 / 2, 1 / 2, 1 / 2, 1 / 2]\<rparr>, 10)]\<rparr>"
  let ?state = "\<lparr>selectaction = 10, sum' = 10\<rparr>"
  let ?trained = "\<lparr>fit_calls =
      [(\<lparr>shape = [32, 2], data = concat (replicate 32 [10, 10])\<rparr>,
        np_random_rand (\<lambda>k. 1 / 2) 32 141, 1)]\<rparr>"
  let ?h = "\<lparr>advantage_loss = [0], strategy_accuracy = [7 / 10],
      declaration_vs_sum_ratio = [1], win_rate = [0], epoch = [0]\<rparr>"
  have w1: "reshape_guard 2 ?s = Inr ?flat"
    using reshape_guard_before_fit[where states = ?s and input_size = 2 and b = 2,
        THEN conjunct1]
    by simp
  have w2: "reshape_guard 2 ?flat = Inr ?flat"
    using reshape_guard_before_fit[where states = ?flat and input_size = 2,
        THEN conjunct2, THEN conjunct1]
    by simp
  have wf: "uniform_entries [1, 2] 2 ?obs"
    by (simp add: uniform_entries_def)
  have a: "add_all_info_sets first_position ?adv ?empty = Inr ?rb"
    by (simp add: regret_match_def epsilon_def add_def)
  have u: "update_strategy_network 2 fit_succeeds first_position first_position ?fresh ?empty
      ?adv 2 10 = Inr (?fitted, ?rb)"
    by (simp add: update_strategy_network_def regret_match_def epsilon_def add_def sample_def
        first_position_def draw_without_replacement_numeral fit_sampled_batch_def np_array_def
        vector_def reshape_guard_def reshape_rows_def np_size_def model_fit_def
        fit_succeeds_def)
  have hyps: "(0 :: nat) < 2 \<and> ([1, 2] = [1, 2 :: nat] \<or> [1, 2] = [2 :: nat])
      \<and> list_all (\<lambda>item. uniform_entries [1, 2] 2 (snd item)) ?adv \<and> (0 :: nat) < 2
      \<and> uniform_entries [1, 2] 2 (buffer ?empty) \<and> (0 :: nat) < 2"
    using wf by (simp add: uniform_entries_def)
  from reshape_guard_before_fit[where input_size = 2 and sh = "[1, 2]" and advantages = ?adv
      and n = 2 and reservoir_buffer = ?empty and batch_size = 2 and add_rnd = first_position
      and sample_rnd = first_position and outcome = fit_succeeds and strategy_net = ?fresh
      and epochs = 10, THEN conjunct2, THEN conjunct2, THEN conjunct1, rule_format, OF hyps]
  obtain rb where
    a': "add_all_info_sets first_position ?adv ?empty = Inr rb"
    and c: "2 \<le> length (buffer rb) \<longrightarrow>
      (\<exists>batch'. shape batch' = [2, 2]
        \<and> (\<exists>policy_targets.
             update_strategy_network 2 fit_succeeds first_position first_position ?fresh
               ?empty ?adv 2 10 =
             (case fit_succeeds (fit_calls ?fresh) (batch', policy_targets, 10) of
                Inl e \<Rightarrow> Inl e
              | Inr loss \<Rightarrow>
                  Inr (?fresh\<lparr>fit_calls := fit_calls ?fresh @ [(batch', policy_targets, 10)]\<rparr>,
                       rb))))"
    by blast
  have "rb = ?rb" using a a' by simp
  with c have u1: "\<exists>batch'. shape batch' = [2, 2]
      \<and> (\<exists>policy_targets.
           update_strategy_network 2 fit_succeeds first_position first_position ?fresh
             ?empty ?adv 2 10 = Inr (\<lparr>fit_calls = [(batch', policy_targets, 10)]\<rparr>, ?rb))"
    by (simp add: fit_succeeds_def)
  have u2: "\<exists>samples batch batch' policy_targets.
      sample first_position ?rb 2 = Inr samples
    \<and> np_array (map fst samples) = Inr batch
    \<and> reshape_guard 2 batch = Inr batch'
    \<and> fit_calls ?fitted = fit_calls ?fresh @ [(batch', policy_targets, 10)]"
    using u reshape_guard_before_fit[where input_size = 2 and outcome = fit_succeeds
        and add_rnd = first_position and sample_rnd = first_position and strategy_net = ?fresh
        and reservoir_buffer = ?empty and advantages = ?adv and batch_size = 2 and epochs = 10
        and strategy_net' = ?fitted and rb_after = ?rb,
        THEN conjunct2, THEN conjunct2, THEN conjunct2, THEN conjunct2, THEN conjunct1]
    by simp
  have enc: "shape (row_encoder ?state) = [1, 2]"
    by (simp add: row_encoder_def)
  have hyps': "(0 :: nat) < 2 \<and> ([1, 2] = [1, 2 :: nat] \<or> [1, 2] = [2 :: nat])
      \<and> [?state] \<noteq> [] \<and> (\<forall>s \<in> set [?state]. shape (row_encoder s) = [1, 2])"
    using enc by simp
  from reshape_guard_before_fit[where input_size = 2 and sh = "[1, 2]"
      and current_state = "[?state]" and encode_state = row_encoder
      and draws = "half_draws 0" and outcome = fit_succeeds and i = 0
      and advantage_net = ?fresh and h = empty_history,
      THEN conjunct2, THEN conjunct2, THEN conjunct2, THEN conjunct1, rule_format, OF hyps']
  have t1: "\<exists>encoded_states'. shape encoded_states' = [32, 2]
      \<and> (\<exists>h'. training_iteration 2 row_encoder fit_succeeds (half_draws 0) [?state] 0
            (?fresh, empty_history) =
          Inr (\<lparr>fit_calls =
                 [(encoded_states', np_random_rand (target_draw (half_draws 0)) 32 141, 1)]\<rparr>,
               h'))"
    by (auto simp: fit_succeeds_def)
  have c0: "np_random_choice first_position (Suc 0) 32 = Inr (replicate 32 0)"
    by (simp add: np_random_choice_def first_position_def map_replicate_const)
  have a0: "np_array (replicate 32 (row_encoder ?state))
      = Inr \<lparr>shape = [32, 1, 2], data = concat (replicate 32 [10, 10])\<rparr>"
    by (simp add: np_array_replicate row_encoder_def)
  have e0: "evaluate_declaration_accuracy row_encoder first_position [?state] 100
      = Inr (1, 1, 0)"
    by (simp add: evaluate_declaration_accuracy_def random_sample_def first_position_def)
  have w0: "evaluate_win_rate (\<lambda>g. 1 / 2)
      \<lparr>advantage_loss = [], strategy_accuracy = [], declaration_vs_sum_ratio = [],
       win_rate = [], epoch = []\<rparr> 50 ''random'' = Inr 0"
    by (simp add: evaluate_win_rate_def)
  have t: "training_iteration 2 row_encoder fit_succeeds (half_draws 0) [?state] 0
      (?fresh, empty_history) = Inr (?trained, ?h)"
    by (simp add: training_iteration_def half_draws_def c0 a0 e0 w0 model_fit_def
        reshape_guard_def reshape_rows_def np_size_def
        fit_succeeds_def log_metrics_def append_if_given_def empty_history_def)
  have t2: "\<exists>batch_indices encoded_states encoded_states'.
      np_random_choice (batch_draw (half_draws 0)) (length [?state]) 32 = Inr batch_indices
    \<and> np_array (map row_encoder (map (\<lambda>idx. [?state] ! idx) batch_indices))
        = Inr encoded_states
    \<and> reshape_guard 2 encoded_states = Inr encoded_states'
    \<and> fit_calls ?trained =
        fit_calls ?fresh @
          [(encoded_states', np_random_rand (target_draw (half_draws 0)) 32 141, 1)]"
    using t reshape_guard_before_fit[where input_size = 2 and encode_state = row_encoder
        and outcome = fit_succeeds and draws = "half_draws 0" and current_state = "[?state]"
        and i = 0 and advantage_net = ?fresh and h = empty_history and advantage_net' = ?trained
        and h' = ?h,
        THEN conjunct2, THEN conjunct2, THEN conjunct2, THEN conjunct2, THEN conjunct2]
    by blast
  show ?thesis
    using w1 w2 wf u u1 u2 enc t t1 t2 by simp
qed

end
